theory Spec2Isabelle
  imports Complex_Main "HOL-Library.Sublist"
begin

section \<open>Tensors\<close>

text \<open>
  The embedding follows \<^verbatim>\<open>sae_lens/training/sparse_autoencoder.py\<close>.

  Tensor entries are real numbers, so the arithmetic of the model is exact: a cast
  \<^verbatim>\<open>x.to(self.dtype)\<close> changes nothing and rounding is not represented. A one-dimensional
  tensor is the list of its entries. A two-dimensional tensor is the list of its rows; the
  inputs \<^verbatim>\<open>x\<close> and \<^verbatim>\<open>feature_acts\<close> (shape \<^verbatim>\<open>... d_in\<close>, \<^verbatim>\<open>... d_sae\<close>) are taken with
  one batch dimension. The width of a parameter matrix is the one its constructor
  allocated (\<^verbatim>\<open>d_sae\<close> for \<^verbatim>\<open>W_enc\<close>, \<^verbatim>\<open>d_in\<close> for \<^verbatim>\<open>W_dec\<close>) and is passed to the
  operations that need it. Every shape test that torch makes is a branch of the model
  returning an error. NaN and the infinities are not represented: where torch divides by
  zero the model has the value that HOL gives the division, and the theorems that depend
  on such a value say so in their hypotheses.
\<close>

type_synonym vector = "real list"
type_synonym tensor = "real list list"

datatype error =
    AttributeError string
  | AssertionError
  | ValueError string
  | KeyError string
  | TypeError string
  | RuntimeError string
  | IndexError string
  | OSError string

text \<open>The first failure of a sequence of computations is the failure of the whole.\<close>

fun sequence :: "(error + 'a) list \<Rightarrow> error + 'a list" where
  "sequence [] = Inr []"
| "sequence (x # xs) =
     (case x of
        Inl e \<Rightarrow> Inl e
      | Inr v \<Rightarrow> (case sequence xs of Inl e \<Rightarrow> Inl e | Inr vs \<Rightarrow> Inr (v # vs)))"

definition tabulate2 :: "nat \<Rightarrow> nat \<Rightarrow> (nat \<Rightarrow> nat \<Rightarrow> real) \<Rightarrow> tensor" where
  "tabulate2 n m f = map (\<lambda>i. map (\<lambda>j. f i j) [0..<m]) [0..<n]"

definition zeros :: "nat \<Rightarrow> vector" where
  "zeros n = replicate n 0"

definition ones :: "nat \<Rightarrow> vector" where
  "ones n = replicate n 1"

text \<open>
  Broadcasting of an elementwise operation along the last dimension: equal sizes pair
  up, a size of one is stretched, anything else is torch's size-mismatch error.
\<close>

definition broadcast_vec :: "(real \<Rightarrow> real \<Rightarrow> real) \<Rightarrow> vector \<Rightarrow> vector \<Rightarrow> error + vector" where
  "broadcast_vec f a b =
     (if length a = length b then Inr (map2 f a b)
      else if length a = 1 then Inr (map (f (hd a)) b)
      else if length b = 1 then Inr (map (\<lambda>x. f x (hd b)) a)
      else Inl (RuntimeError ''The size of tensor a must match the size of tensor b''))"

text \<open>A batch of rows against a one-dimensional tensor.\<close>

definition broadcast_rows :: "(real \<Rightarrow> real \<Rightarrow> real) \<Rightarrow> tensor \<Rightarrow> vector \<Rightarrow> error + tensor" where
  "broadcast_rows f x v = sequence (map (\<lambda>r. broadcast_vec f r v) x)"

text \<open>Two two-dimensional tensors: the batch dimension broadcasts in the same way.\<close>

definition broadcast_tensor :: "(real \<Rightarrow> real \<Rightarrow> real) \<Rightarrow> tensor \<Rightarrow> tensor \<Rightarrow> error + tensor" where
  "broadcast_tensor f a b =
     (if length a = length b then sequence (map (\<lambda>(r, q). broadcast_vec f r q) (zip a b))
      else if length a = 1 then sequence (map (\<lambda>q. broadcast_vec f (hd a) q) b)
      else if length b = 1 then sequence (map (\<lambda>r. broadcast_vec f r (hd b)) a)
      else Inl (RuntimeError ''The size of tensor a must match the size of tensor b''))"

text \<open>
  \<^verbatim>\<open>r @ W\<close> for a row \<^verbatim>\<open>r\<close> and a matrix \<^verbatim>\<open>W\<close> with \<^verbatim>\<open>m\<close> columns:
  the row's size must be the number of rows of \<^verbatim>\<open>W\<close>.
\<close>

definition vec_mat :: "nat \<Rightarrow> vector \<Rightarrow> tensor \<Rightarrow> error + vector" where
  "vec_mat m r W =
     (if length r = length W
      then Inr (map (\<lambda>j. sum_list (map2 (\<lambda>a w. a * w ! j) r W)) [0..<m])
      else Inl (RuntimeError ''mat1 and mat2 shapes cannot be multiplied''))"

definition matmul :: "nat \<Rightarrow> tensor \<Rightarrow> tensor \<Rightarrow> error + tensor" where
  "matmul m x W = sequence (map (\<lambda>r. vec_mat m r W) x)"

text \<open>\<^verbatim>\<open>torch.norm(t, dim=-1)\<close>: the Euclidean norm of a row.\<close>

definition l2_norm :: "vector \<Rightarrow> real" where
  "l2_norm v = sqrt (sum_list (map (\<lambda>a. a * a) v))"

text \<open>
  \<^verbatim>\<open>t.norm(p=p, dim=-1)\<close> of a row for a finite \<^verbatim>\<open>p\<close>: the number of non-zero
  entries when \<^verbatim>\<open>p = 0\<close>, and \<^verbatim>\<open>(sum |a|^p)^(1/p)\<close> otherwise, where a zero entry under
  a negative \<^verbatim>\<open>p\<close> makes the sum infinite and the norm zero. (The norm of an empty row
  under a negative \<^verbatim>\<open>p\<close> is infinite in torch.)
\<close>

definition lp_norm_of :: "real \<Rightarrow> vector \<Rightarrow> real" where
  "lp_norm_of p v =
     (if p = 0 then real (length (filter (\<lambda>a. a \<noteq> 0) v))
      else if p < 0 \<and> 0 \<in> set v then 0
      else (sum_list (map (\<lambda>a. \<bar>a\<bar> powr p) v)) powr (1 / p))"

text \<open>\<^verbatim>\<open>t.mean()\<close> over a list of entries.\<close>

definition mean :: "real list \<Rightarrow> real" where
  "mean xs = sum_list xs / real (length xs)"

text \<open>\<^verbatim>\<open>t.mean(dim=0)\<close>: the mean of every column.\<close>

definition mean_dim0 :: "tensor \<Rightarrow> vector" where
  "mean_dim0 t = map (\<lambda>col. sum_list col / real (length t)) (transpose t)"

text \<open>
  \<^verbatim>\<open>t.median(0).values\<close> of a one-dimensional tensor: the lower of the two middle
  values; an empty tensor has no median.
\<close>

definition median0 :: "real list \<Rightarrow> error + real" where
  "median0 xs =
     (if xs = [] then Inl (IndexError ''median(): Expected reduction dim 0 to have non-zero size'')
      else Inr (sort xs ! ((length xs - 1) div 2)))"

text \<open>The transpose of a matrix of shape \<^verbatim>\<open>n\<close> by \<^verbatim>\<open>m\<close>.\<close>

definition transpose_mat :: "nat \<Rightarrow> nat \<Rightarrow> tensor \<Rightarrow> tensor" where
  "transpose_mat n m W = tabulate2 m n (\<lambda>j i. W ! i ! j)"

text \<open>
  Indexing with a boolean mask keeps the entries at the set positions; the mask must be
  as long as the dimension it indexes.
\<close>

definition mask_select :: "bool list \<Rightarrow> 'a list \<Rightarrow> error + 'a list" where
  "mask_select m xs =
     (if length m = length xs then Inr (map snd (filter fst (zip m xs)))
      else Inl (IndexError ''The shape of the mask does not match the shape of the indexed tensor''))"

definition mask_sum :: "bool list \<Rightarrow> nat" where
  "mask_sum m = length (filter (\<lambda>b. b) m)"

text \<open>\<^verbatim>\<open>HookPoint.forward\<close> hands its argument through.\<close>

definition HookPoint :: "tensor \<Rightarrow> tensor" where
  "HookPoint x = x"

text \<open>Sequencing of computations that may raise.\<close>

definition and_then :: "error + 'a \<Rightarrow> ('a \<Rightarrow> error + 'b) \<Rightarrow> error + 'b" where
  "and_then r f = (case r of Inl e \<Rightarrow> Inl e | Inr v \<Rightarrow> f v)"

section \<open>The autoencoder core: \<^verbatim>\<open>SparseAutoencoderBase\<close>\<close>

text \<open>Python values as they stand in a configuration dictionary or a JSON file.\<close>

datatype pyval = PyInt int | PyStr string | PyBool bool | PyNone

text \<open>A named parameter tensor of a state dictionary.\<close>

datatype param = Vec vector | Mat tensor

type_synonym state_dict = "(string \<times> param) list"
type_synonym config_dict = "(string \<times> pyval) list"

text \<open>
  The fields of \<^verbatim>\<open>LanguageModelSAERunnerConfig\<close> (\<^verbatim>\<open>sae_lens/training/config.py\<close>) that
  this file reads.
\<close>

record runner_config =
  cfg_d_in :: nat
  cfg_d_sae :: nat
  cfg_dtype :: string
  cfg_device :: string
  cfg_model_name :: string
  cfg_hook_point :: string
  cfg_hook_point_layer :: int
  cfg_hook_point_head_index :: "int option"
  cfg_activation_fn :: string
  cfg_apply_b_dec_to_input :: bool
  cfg_finetuning_method :: "string option"
  cfg_sae_lens_training_version :: "string option"
  cfg_mse_loss_normalization :: "string option"
  cfg_l1_coefficient :: real
  cfg_lp_norm :: real
  cfg_scale_sparsity_penalty_by_decoder_norm :: bool
  cfg_use_ghost_grads :: bool
  cfg_noise_scale :: real
  cfg_normalize_sae_decoder :: bool
  cfg_decoder_orthogonal_init :: bool
  cfg_decoder_heuristic_init :: bool
  cfg_init_encoder_as_decoder_transpose :: bool
  cfg_act_store_device :: string

text \<open>
  The random numbers a constructor draws, one entry for every position of the tensor it
  fills: \<^verbatim>\<open>kaiming_uniform_\<close> for \<^verbatim>\<open>W_dec\<close> and \<^verbatim>\<open>W_enc\<close> in
  \<^verbatim>\<open>initialize_weights_basic\<close>, and in \<^verbatim>\<open>initialize_weights_complex\<close> the result of
  \<^verbatim>\<open>orthogonal_\<close> on the transposed decoder, \<^verbatim>\<open>torch.rand\<close> for the decoder and the
  second \<^verbatim>\<open>kaiming_uniform_\<close> for the encoder.
\<close>

record draws =
  kaiming_W_dec :: "nat \<Rightarrow> nat \<Rightarrow> real"
  kaiming_W_enc :: "nat \<Rightarrow> nat \<Rightarrow> real"
  orthogonal_W_dec_T :: "nat \<Rightarrow> nat \<Rightarrow> real"
  rand_W_dec :: "nat \<Rightarrow> nat \<Rightarrow> real"
  kaiming_W_enc_complex :: "nat \<Rightarrow> nat \<Rightarrow> real"

text \<open>
  The function \<^verbatim>\<open>apply_scaling_factor\<close> that \<^verbatim>\<open>__init__\<close> installs:
  \<^verbatim>\<open>lambda x: x * self.scaling_factor\<close> or \<^verbatim>\<open>lambda x: x\<close>.
\<close>

datatype scaling = TimesScalingFactor | IdentityScaling

text \<open>
  An instance. \<^verbatim>\<open>scaling_factor\<close>, the gradients and \<^verbatim>\<open>cfg\<close> are optional: \<open>None\<close>
  is an attribute that was never set (for a gradient, \<^verbatim>\<open>grad is None\<close>).
  \<^verbatim>\<open>training\<close> is the mode flag of \<^verbatim>\<open>nn.Module\<close>.
\<close>

record sae =
  d_in :: nat
  d_sae :: nat
  activation_fn_str :: string
  activation_fn :: "tensor \<Rightarrow> tensor"
  apply_b_dec_to_input :: bool
  uses_scaling_factor :: bool
  model_name :: string
  hook_point :: string
  hook_point_layer :: int
  hook_point_head_index :: "int option"
  dataset_name :: string
  prepend_bos :: bool
  context_size :: int
  dtype :: string
  device :: string
  sae_lens_training_version :: "string option"
  b_enc :: vector
  W_dec :: tensor
  W_enc :: tensor
  b_dec :: vector
  scaling_factor :: "vector option"
  apply_scaling_factor :: scaling
  training :: bool
  b_enc_grad :: "vector option"
  W_dec_grad :: "tensor option"
  W_enc_grad :: "tensor option"
  b_dec_grad :: "vector option"
  scaling_factor_grad :: "vector option"
  cfg :: "runner_config option"

text \<open>The arguments of \<^verbatim>\<open>SparseAutoencoderBase.__init__\<close>.\<close>

record sae_args =
  arg_d_in :: nat
  arg_d_sae :: nat
  arg_dtype :: string
  arg_device :: string
  arg_model_name :: string
  arg_hook_point :: string
  arg_hook_point_layer :: int
  arg_hook_point_head_index :: "int option"
  arg_activation_fn :: string
  arg_apply_b_dec_to_input :: bool
  arg_uses_scaling_factor :: bool
  arg_sae_lens_training_version :: "string option"
  arg_prepend_bos :: bool
  arg_dataset_path :: string
  arg_context_size :: int

text \<open>The seven required arguments, the others at their defaults.\<close>

definition required_args ::
  "nat \<Rightarrow> nat \<Rightarrow> string \<Rightarrow> string \<Rightarrow> string \<Rightarrow> string \<Rightarrow> int \<Rightarrow> sae_args" where
  "required_args di ds dt dv mn hp hl =
     \<lparr>arg_d_in = di, arg_d_sae = ds, arg_dtype = dt, arg_device = dv, arg_model_name = mn,
      arg_hook_point = hp, arg_hook_point_layer = hl, arg_hook_point_head_index = None,
      arg_activation_fn = ''relu'', arg_apply_b_dec_to_input = True,
      arg_uses_scaling_factor = False, arg_sae_lens_training_version = None,
      arg_prepend_bos = True, arg_dataset_path = ''unknown'', arg_context_size = 256\<rparr>"

definition initialize_weights_basic :: "draws \<Rightarrow> 'a sae_scheme \<Rightarrow> 'a sae_scheme" where
  "initialize_weights_basic dr s =
     s\<lparr>b_enc := zeros (d_sae s),
       W_dec := tabulate2 (d_sae s) (d_in s) (kaiming_W_dec dr),
       W_enc := tabulate2 (d_in s) (d_sae s) (kaiming_W_enc dr),
       b_dec := zeros (d_in s),
       scaling_factor :=
         (if uses_scaling_factor s then Some (ones (d_sae s)) else scaling_factor s)\<rparr>"

text \<open>
  \<^verbatim>\<open>__init__\<close>. \<^verbatim>\<open>get_activation_fn\<close> (\<^verbatim>\<open>sae_lens/training/activation_functions.py\<close>)
  is a parameter: it resolves the name of an activation function or raises. Nothing in
  \<^verbatim>\<open>__init__\<close> assigns \<^verbatim>\<open>self.cfg\<close>. The four \<^verbatim>\<open>HookPoint\<close> modules carry no state.
\<close>

definition SparseAutoencoderBase_init ::
  "(string \<Rightarrow> error + (tensor \<Rightarrow> tensor)) \<Rightarrow> draws \<Rightarrow> sae_args \<Rightarrow> error + sae" where
  "SparseAutoencoderBase_init get_activation_fn dr a =
     and_then (get_activation_fn (arg_activation_fn a)) (\<lambda>fn.
       let s0 = \<lparr>d_in = arg_d_in a, d_sae = arg_d_sae a,
                 activation_fn_str = arg_activation_fn a, activation_fn = fn,
                 apply_b_dec_to_input = arg_apply_b_dec_to_input a,
                 uses_scaling_factor = arg_uses_scaling_factor a,
                 model_name = arg_model_name a, hook_point = arg_hook_point a,
                 hook_point_layer = arg_hook_point_layer a,
                 hook_point_head_index = arg_hook_point_head_index a,
                 dataset_name = arg_dataset_path a, prepend_bos = arg_prepend_bos a,
                 context_size = arg_context_size a, dtype = arg_dtype a,
                 device = arg_device a,
                 sae_lens_training_version = arg_sae_lens_training_version a,
                 b_enc = [], W_dec = [], W_enc = [], b_dec = [], scaling_factor = None,
                 apply_scaling_factor = IdentityScaling, training = True,
                 b_enc_grad = None, W_dec_grad = None, W_enc_grad = None,
                 b_dec_grad = None, scaling_factor_grad = None, cfg = None\<rparr>;
           s1 = initialize_weights_basic dr s0
       in Inr (s1\<lparr>apply_scaling_factor :=
                    (if uses_scaling_factor s1 then TimesScalingFactor else IdentityScaling)\<rparr>))"

text \<open>\<^verbatim>\<open>self.b_dec * self.apply_b_dec_to_input\<close>: the flag counts as 1 or 0.\<close>

definition times_bool :: "vector \<Rightarrow> bool \<Rightarrow> vector" where
  "times_bool v b = map (\<lambda>a. a * (if b then 1 else 0)) v"

definition SparseAutoencoderBase_encode :: "'a sae_scheme \<Rightarrow> tensor \<Rightarrow> error + tensor" where
  "SparseAutoencoderBase_encode s x =
     and_then (broadcast_rows (\<lambda>a b. a - b) x (times_bool (b_dec s) (apply_b_dec_to_input s)))
       (\<lambda>centred.
     let sae_in = HookPoint centred in
     and_then (matmul (d_sae s) sae_in (W_enc s)) (\<lambda>projected.
     and_then (broadcast_rows (\<lambda>a b. a + b) projected (b_enc s)) (\<lambda>biased.
     let hidden_pre = HookPoint biased;
         feature_acts = HookPoint (activation_fn s hidden_pre)
     in Inr feature_acts)))"

definition apply_scaling :: "'a sae_scheme \<Rightarrow> tensor \<Rightarrow> error + tensor" where
  "apply_scaling s x =
     (case apply_scaling_factor s of
        IdentityScaling \<Rightarrow> Inr x
      | TimesScalingFactor \<Rightarrow>
          (case scaling_factor s of
             None \<Rightarrow> Inl (AttributeError ''scaling_factor'')
           | Some sf \<Rightarrow> broadcast_rows (\<lambda>a b. a * b) x sf))"

definition decode :: "'a sae_scheme \<Rightarrow> tensor \<Rightarrow> error + tensor" where
  "decode s feature_acts =
     and_then (apply_scaling s feature_acts) (\<lambda>scaled.
     and_then (matmul (d_in s) scaled (W_dec s)) (\<lambda>projected.
     and_then (broadcast_rows (\<lambda>a b. a + b) projected (b_dec s)) (\<lambda>biased.
     Inr (HookPoint biased))))"

definition SparseAutoencoderBase_forward :: "'a sae_scheme \<Rightarrow> tensor \<Rightarrow> error + tensor" where
  "SparseAutoencoderBase_forward s x =
     and_then (SparseAutoencoderBase_encode s x) (\<lambda>feature_acts. decode s feature_acts)"

section \<open>The training extension: \<^verbatim>\<open>TrainingSparseAutoencoder\<close>\<close>

text \<open>
  The sparsity term that \<^verbatim>\<open>__init__\<close> binds to \<^verbatim>\<open>get_sparsity_loss_term\<close>, once.
\<close>

datatype sparsity_policy = SparsityDecoderNorm | SparsityStandard

record training_sae = sae +
  mse_loss_normalization :: "string option"
  l1_coefficient :: real
  lp_norm :: real
  scale_sparsity_penalty_by_decoder_norm :: bool
  use_ghost_grads :: bool
  noise_scale :: real
  normalize_sae_decoder :: bool
  decoder_orthogonal_init :: bool
  decoder_heuristic_init :: bool
  init_encoder_as_decoder_transpose :: bool
  get_sparsity_loss_term :: sparsity_policy

text \<open>
  \<^verbatim>\<open>ghost_grad_loss\<close> is a zero-dimensional tensor or the Python number \<^verbatim>\<open>0\<close>.
\<close>

datatype loss_term = PyNumber int | TensorScalar real

fun loss_value :: "loss_term \<Rightarrow> real" where
  "loss_value (PyNumber n) = real_of_int n"
| "loss_value (TensorScalar r) = r"

record ForwardOutput =
  sae_out :: tensor
  feature_acts :: tensor
  loss :: real
  mse_loss :: real
  l1_loss :: real
  ghost_grad_loss :: loss_term

text \<open>
  \<^verbatim>\<open>W /= torch.norm(W, dim=1, keepdim=True)\<close>: every row is divided by its own norm.
  (Division by a zero norm gives \<open>0\<close> here and NaN in torch.)
\<close>

definition unit_rows :: "tensor \<Rightarrow> tensor" where
  "unit_rows W = map (\<lambda>r. map (\<lambda>a. a / l2_norm r) r) W"

definition set_decoder_norm_to_unit_norm :: "'a sae_scheme \<Rightarrow> 'a sae_scheme" where
  "set_decoder_norm_to_unit_norm s = s\<lparr>W_dec := unit_rows (W_dec s)\<rparr>"

definition initialize_decoder_norm_constant_norm :: "real \<Rightarrow> 'a sae_scheme \<Rightarrow> 'a sae_scheme" where
  "initialize_decoder_norm_constant_norm norm' s =
     (let s1 = s\<lparr>W_dec := unit_rows (W_dec s)\<rparr>
      in s1\<lparr>W_dec := map (map (\<lambda>a. a * norm')) (W_dec s1)\<rparr>)"

text \<open>The default of the parameter \<^verbatim>\<open>norm\<close>.\<close>

definition default_norm :: real where
  "default_norm = 1 / 10"

definition initialize_weights_complex ::
  "draws \<Rightarrow> 'a training_sae_scheme \<Rightarrow> 'a training_sae_scheme" where
  "initialize_weights_complex dr s =
     (let s1 =
            (if decoder_orthogonal_init s
             then s\<lparr>W_dec := transpose_mat (d_in s) (d_sae s)
                               (tabulate2 (d_in s) (d_sae s) (orthogonal_W_dec_T dr))\<rparr>
             else if decoder_heuristic_init s
             then initialize_decoder_norm_constant_norm default_norm
                    (s\<lparr>W_dec := tabulate2 (d_sae s) (d_in s) (rand_W_dec dr)\<rparr>)
             else if normalize_sae_decoder s
             then set_decoder_norm_to_unit_norm s
             else s);
          s2 =
            (if init_encoder_as_decoder_transpose s1
             then s1\<lparr>W_enc := transpose_mat (d_sae s1) (d_in s1) (W_dec s1)\<rparr>
             else s1\<lparr>W_enc := tabulate2 (d_in s1) (d_sae s1) (kaiming_W_enc_complex dr)\<rparr>)
      in if normalize_sae_decoder s2 then set_decoder_norm_to_unit_norm s2 else s2)"

text \<open>
  The entry at row \<open>i\<close> and column \<open>j\<close> of the decoder that
  \<^verbatim>\<open>initialize_weights_complex\<close> starts from: the transposed result of \<^verbatim>\<open>orthogonal_\<close>,
  the \<^verbatim>\<open>torch.rand\<close> tensor, or the tensor of \<^verbatim>\<open>initialize_weights_basic\<close>, by the
  priority of the three flags.
\<close>

definition drawn_decoder :: "draws \<Rightarrow> runner_config \<Rightarrow> nat \<Rightarrow> nat \<Rightarrow> real" where
  "drawn_decoder dr c i j =
     (if cfg_decoder_orthogonal_init c then orthogonal_W_dec_T dr j i
      else if cfg_decoder_heuristic_init c then rand_W_dec dr i j
      else kaiming_W_dec dr i j)"

text \<open>
  \<^verbatim>\<open>__init__\<close>: the base constructor, the attributes read from \<^verbatim>\<open>cfg\<close>, and
  \<^verbatim>\<open>initialize_weights_complex\<close>. The sparsity term is bound after the weights are
  initialised; the initialisation neither reads nor writes it.
\<close>

definition TrainingSparseAutoencoder_init ::
  "(string \<Rightarrow> error + (tensor \<Rightarrow> tensor)) \<Rightarrow> draws \<Rightarrow> runner_config \<Rightarrow> error + training_sae" where
  "TrainingSparseAutoencoder_init get_activation_fn dr c =
     and_then
       (SparseAutoencoderBase_init get_activation_fn dr
          \<lparr>arg_d_in = cfg_d_in c, arg_d_sae = cfg_d_sae c, arg_dtype = cfg_dtype c,
           arg_device = cfg_device c, arg_model_name = cfg_model_name c,
           arg_hook_point = cfg_hook_point c, arg_hook_point_layer = cfg_hook_point_layer c,
           arg_hook_point_head_index = cfg_hook_point_head_index c,
           arg_activation_fn = cfg_activation_fn c,
           arg_apply_b_dec_to_input = cfg_apply_b_dec_to_input c,
           arg_uses_scaling_factor = (cfg_finetuning_method c \<noteq> None),
           arg_sae_lens_training_version = cfg_sae_lens_training_version c,
           arg_prepend_bos = True, arg_dataset_path = ''unknown'', arg_context_size = 256\<rparr>)
       (\<lambda>base.
          Inr (initialize_weights_complex dr
                 (sae.extend base
                    (training_sae.fields
                       (cfg_mse_loss_normalization c) (cfg_l1_coefficient c) (cfg_lp_norm c)
                       (cfg_scale_sparsity_penalty_by_decoder_norm c) (cfg_use_ghost_grads c)
                       (cfg_noise_scale c) (cfg_normalize_sae_decoder c)
                       (cfg_decoder_orthogonal_init c) (cfg_decoder_heuristic_init c)
                       (cfg_init_encoder_as_decoder_transpose c)
                       (if cfg_scale_sparsity_penalty_by_decoder_norm c
                        then SparsityDecoderNorm else SparsityStandard)))))"

text \<open>
  \<^verbatim>\<open>torch.randn_like(hidden_pre)\<close>: a tensor of the shape of \<^verbatim>\<open>hidden_pre\<close> whose entries
  are the numbers drawn, \<open>noise i j\<close> at row \<open>i\<close> and column \<open>j\<close>.
\<close>

definition randn_like :: "(nat \<Rightarrow> nat \<Rightarrow> real) \<Rightarrow> tensor \<Rightarrow> tensor" where
  "randn_like noise h = map (\<lambda>(i, r). map (\<lambda>j. noise i j) [0..<length r]) (enumerate 0 h)"

definition encode_with_hidden_pre ::
  "'a training_sae_scheme \<Rightarrow> (nat \<Rightarrow> nat \<Rightarrow> real) \<Rightarrow> tensor \<Rightarrow> error + (tensor \<times> tensor)" where
  "encode_with_hidden_pre s noise x =
     and_then (broadcast_rows (\<lambda>a b. a - b) x (times_bool (b_dec s) (apply_b_dec_to_input s)))
       (\<lambda>centred.
     let sae_in = HookPoint centred in
     and_then (matmul (d_sae s) sae_in (W_enc s)) (\<lambda>projected.
     and_then (broadcast_rows (\<lambda>a b. a + b) projected (b_enc s)) (\<lambda>biased.
     let hidden_pre = HookPoint biased in
     and_then
       (broadcast_tensor (\<lambda>a b. a + b) hidden_pre
          (map (map (\<lambda>n. n * noise_scale s * (if training s then 1 else 0)))
             (randn_like noise hidden_pre)))
       (\<lambda>noisy_hidden_pre.
     let acts = HookPoint (activation_fn s noisy_hidden_pre)
     in Inr (acts, hidden_pre)))))"

definition TrainingSparseAutoencoder_encode ::
  "'a training_sae_scheme \<Rightarrow> (nat \<Rightarrow> nat \<Rightarrow> real) \<Rightarrow> tensor \<Rightarrow> error + tensor" where
  "TrainingSparseAutoencoder_encode s noise x =
     and_then (encode_with_hidden_pre s noise x) (\<lambda>(acts, hidden_pre). Inr acts)"

definition get_sparsity_loss_term_standard :: "'a training_sae_scheme \<Rightarrow> tensor \<Rightarrow> vector" where
  "get_sparsity_loss_term_standard s acts = map (lp_norm_of (lp_norm s)) acts"

definition get_sparsity_loss_term_decoder_norm ::
  "'a training_sae_scheme \<Rightarrow> tensor \<Rightarrow> error + vector" where
  "get_sparsity_loss_term_decoder_norm s acts =
     and_then (broadcast_rows (\<lambda>a b. a * b) acts (map l2_norm (W_dec s)))
       (\<lambda>weighted_feature_acts. Inr (map (lp_norm_of (lp_norm s)) weighted_feature_acts))"

definition sparsity_term :: "'a training_sae_scheme \<Rightarrow> tensor \<Rightarrow> error + vector" where
  "sparsity_term s acts =
     (case get_sparsity_loss_term s of
        SparsityDecoderNorm \<Rightarrow> get_sparsity_loss_term_decoder_norm s acts
      | SparsityStandard \<Rightarrow> Inr (get_sparsity_loss_term_standard s acts))"




text \<open>\<^verbatim>\<open>torch.nn.functional.mse_loss(preds, target, reduction="none")\<close>.\<close>

definition mse_loss_none :: "tensor \<Rightarrow> tensor \<Rightarrow> error + tensor" where
  "mse_loss_none preds target = broadcast_tensor (\<lambda>p t. (p - t) * (p - t)) preds target"

definition eps :: real where
  "eps = 1 / 1000000"

definition per_item_mse_loss_with_target_norm ::
  "tensor \<Rightarrow> tensor \<Rightarrow> string option \<Rightarrow> error + tensor" where
  "per_item_mse_loss_with_target_norm preds target normalization_mode =
     (if normalization_mode = Some ''dense_batch''
      then
        and_then (broadcast_rows (\<lambda>a b. a - b) target (mean_dim0 target)) (\<lambda>target_centered.
        let normalization = map (\<lambda>r. [l2_norm r]) target_centered in
        and_then (mse_loss_none preds target) (\<lambda>se.
        broadcast_tensor (\<lambda>a b. a / b) se (map (map (\<lambda>n. n + eps)) normalization)))
      else mse_loss_none preds target)"

definition calculate_ghost_grad_loss ::
  "'a training_sae_scheme \<Rightarrow> tensor \<Rightarrow> tensor \<Rightarrow> tensor \<Rightarrow> tensor \<Rightarrow> bool list \<Rightarrow> error + real" where
  "calculate_ghost_grad_loss s x out per_item_mse_loss hidden_pre dead_neuron_mask =
     and_then (broadcast_tensor (\<lambda>a b. a - b) x out) (\<lambda>residual.
     let l2_norm_residual = map l2_norm residual in
     and_then (sequence (map (mask_select dead_neuron_mask) hidden_pre)) (\<lambda>dead_pre.
     let feature_acts_dead_neurons_only = map (map exp) dead_pre in
     and_then (mask_select dead_neuron_mask (W_dec s)) (\<lambda>W_dead.
     and_then (matmul (d_in s) feature_acts_dead_neurons_only W_dead) (\<lambda>ghost_out.
     let l2_norm_ghost_out = map l2_norm ghost_out in
     and_then (broadcast_vec (\<lambda>r g. r / (eps + g * 2)) l2_norm_residual l2_norm_ghost_out)
       (\<lambda>norm_scaling_factor.
     and_then (broadcast_tensor (\<lambda>a b. a * b) ghost_out (map (\<lambda>c. [c]) norm_scaling_factor))
       (\<lambda>ghost_scaled.
     and_then (per_item_mse_loss_with_target_norm ghost_scaled residual (mse_loss_normalization s))
       (\<lambda>ghost_resid.
     and_then (broadcast_tensor (\<lambda>a b. a / (b + eps)) per_item_mse_loss ghost_resid)
       (\<lambda>mse_rescaling_factor.
     and_then (broadcast_tensor (\<lambda>a b. a * b) mse_rescaling_factor ghost_resid)
       (\<lambda>rescaled.
     Inr (mean (concat rescaled)))))))))))"

definition TrainingSparseAutoencoder_forward ::
  "'a training_sae_scheme \<Rightarrow> (nat \<Rightarrow> nat \<Rightarrow> real) \<Rightarrow> tensor \<Rightarrow> bool list option
     \<Rightarrow> error + ForwardOutput" where
  "TrainingSparseAutoencoder_forward s noise x dead_neuron_mask =
     and_then (encode_with_hidden_pre s noise x) (\<lambda>(acts, hidden_pre).
     and_then (decode s acts) (\<lambda>out.
     and_then (per_item_mse_loss_with_target_norm out x (mse_loss_normalization s))
       (\<lambda>per_item_mse_loss.
     and_then
       (if use_ghost_grads s \<and> training s
        then (case dead_neuron_mask of
                None \<Rightarrow> Inr (PyNumber 0)
              | Some m \<Rightarrow>
                  if 0 < mask_sum m
                  then and_then
                         (calculate_ghost_grad_loss s x out per_item_mse_loss hidden_pre m)
                         (\<lambda>g. Inr (TensorScalar g))
                  else Inr (PyNumber 0))
        else Inr (PyNumber 0))
       (\<lambda>ghost.
     let mse = mean (map sum_list per_item_mse_loss) in
     and_then (sparsity_term s acts) (\<lambda>sparsity.
     let l1 = mean (map (\<lambda>v. l1_coefficient s * v) sparsity);
         total = mse + l1 + loss_value ghost
     in Inr \<lparr>sae_out = out, feature_acts = acts, loss = total, mse_loss = mse,
             l1_loss = l1, ghost_grad_loss = ghost\<rparr>)))))"

text \<open>
  \<^verbatim>\<open>torch.tensor(origin, dtype=self.dtype, device=self.device)\<close> copies \<^verbatim>\<open>origin\<close>.
\<close>

definition initialize_b_dec_with_precalculated ::
  "'a training_sae_scheme \<Rightarrow> vector \<Rightarrow> 'a training_sae_scheme" where
  "initialize_b_dec_with_precalculated s origin = s\<lparr>b_dec := origin\<rparr>"

text \<open>
  The result carries the two numbers printed: the median distance of the activations to
  the previous bias and to the new one.
\<close>

definition initialize_b_dec_with_mean ::
  "'a training_sae_scheme \<Rightarrow> tensor \<Rightarrow> error + ('a training_sae_scheme \<times> real \<times> real)" where
  "initialize_b_dec_with_mean s all_activations =
     (let previous_b_dec = b_dec s;
          out = mean_dim0 all_activations in
      and_then (broadcast_rows (\<lambda>a b. a - b) all_activations previous_b_dec) (\<lambda>from_previous.
      let previous_distances = map l2_norm from_previous in
      and_then (broadcast_rows (\<lambda>a b. a - b) all_activations out) (\<lambda>from_out.
      let distances = map l2_norm from_out in
      and_then (median0 previous_distances) (\<lambda>printed_previous.
      and_then (median0 distances) (\<lambda>printed_new.
      Inr (s\<lparr>b_dec := out\<rparr>, printed_previous, printed_new))))))"

text \<open>
  An in-place subtraction keeps the shape of its target: the broadcast result must have
  the target's shape.
\<close>

definition same_shape :: "tensor \<Rightarrow> tensor \<Rightarrow> bool" where
  "same_shape a b = (map length a = map length b)"

definition isub :: "tensor \<Rightarrow> tensor \<Rightarrow> error + tensor" where
  "isub a b =
     and_then (broadcast_tensor (\<lambda>p q. p - q) a b) (\<lambda>r.
       if same_shape r a then Inr r
       else Inl (RuntimeError ''output shape does not match the broadcast shape''))"

text \<open>
  The two \<^verbatim>\<open>einops.einsum\<close> calls: \<^verbatim>\<open>d_sae d_in, d_sae d_in -> d_sae\<close> multiplies entry
  by entry and sums every row; \<^verbatim>\<open>d_sae, d_sae d_in -> d_sae d_in\<close> scales row \<open>i\<close> by
  entry \<open>i\<close>. Both go through \<^verbatim>\<open>torch.einsum\<close>, which stretches a dimension of size one.
\<close>

definition remove_gradient_parallel_to_decoder_directions ::
  "'a training_sae_scheme \<Rightarrow> error + 'a training_sae_scheme" where
  "remove_gradient_parallel_to_decoder_directions s =
     (case W_dec_grad s of
        None \<Rightarrow> Inl AssertionError
      | Some g \<Rightarrow>
          and_then (broadcast_tensor (\<lambda>a b. a * b) g (W_dec s)) (\<lambda>products.
          let parallel_component = map sum_list products in
          and_then (broadcast_tensor (\<lambda>a b. a * b) (map (\<lambda>c. [c]) parallel_component) (W_dec s))
            (\<lambda>projection.
          and_then (isub g projection) (\<lambda>g'.
          Inr (s\<lparr>W_dec_grad := Some g'\<rparr>)))))"

section \<open>Persistence and pretrained checkpoints\<close>

definition SPARSITY_PATH :: string where
  "SPARSITY_PATH = ''sparsity.safetensors''"

definition SAE_WEIGHTS_PATH :: string where
  "SAE_WEIGHTS_PATH = ''sae_weights.safetensors''"

definition SAE_CFG_PATH :: string where
  "SAE_CFG_PATH = ''cfg.json''"

text \<open>
  \<^verbatim>\<open>self.state_dict()\<close>: the parameters in the order \<^verbatim>\<open>initialize_weights_basic\<close>
  registers them; \<^verbatim>\<open>scaling_factor\<close> only when the instance has one.
\<close>

definition state_dict_of :: "'a sae_scheme \<Rightarrow> state_dict" where
  "state_dict_of s =
     [(''b_enc'', Vec (b_enc s)), (''W_dec'', Mat (W_dec s)), (''W_enc'', Mat (W_enc s)),
      (''b_dec'', Vec (b_dec s))]
     @ (case scaling_factor s of None \<Rightarrow> [] | Some sf \<Rightarrow> [(''scaling_factor'', Vec sf)])"

definition opt_int :: "int option \<Rightarrow> pyval" where
  "opt_int v = (case v of None \<Rightarrow> PyNone | Some n \<Rightarrow> PyInt n)"

definition opt_str :: "string option \<Rightarrow> pyval" where
  "opt_str v = (case v of None \<Rightarrow> PyNone | Some t \<Rightarrow> PyStr t)"

text \<open>
  \<^verbatim>\<open>get_config_dict\<close> evaluates the entries of its dictionary in order; the tenth reads
  \<^verbatim>\<open>self.cfg.act_store_device\<close>, an AttributeError on an instance without \<^verbatim>\<open>cfg\<close>.
\<close>

definition get_config_dict :: "'a sae_scheme \<Rightarrow> error + config_dict" where
  "get_config_dict s =
     (case cfg s of
        None \<Rightarrow> Inl (AttributeError ''cfg'')
      | Some c \<Rightarrow>
          Inr [(''d_in'', PyInt (int (d_in s))),
               (''d_sae'', PyInt (int (d_sae s))),
               (''dtype'', PyStr (dtype s)),
               (''device'', PyStr (device s)),
               (''model_name'', PyStr (model_name s)),
               (''hook_point'', PyStr (hook_point s)),
               (''hook_point_layer'', PyInt (hook_point_layer s)),
               (''hook_point_head_index'', opt_int (hook_point_head_index s)),
               (''activation_fn'', PyStr (activation_fn_str s)),
               (''act_store_device'', PyStr (cfg_act_store_device c)),
               (''apply_b_dec_to_input'', PyBool (apply_b_dec_to_input s)),
               (''uses_scaling_factor'', PyBool (uses_scaling_factor s)),
               (''sae_lens_training_version'', opt_str (sae_lens_training_version s)),
               (''prepend_bos'', PyBool (prepend_bos s)),
               (''dataset_name'', PyStr (dataset_name s))])"

text \<open>
  The files of a directory tree, by path. A write into a path that is not a directory
  fails; failures of the operating system itself are not represented.
\<close>

datatype fs_entry = Directory | SafeTensors state_dict | JsonFile config_dict

type_synonym filesystem = "string \<Rightarrow> fs_entry option"

definition write_file :: "filesystem \<Rightarrow> string \<Rightarrow> string \<Rightarrow> fs_entry \<Rightarrow> error + filesystem" where
  "write_file fs dir name content =
     (case fs dir of
        Some Directory \<Rightarrow> Inr (fs(dir @ ''/'' @ name \<mapsto> content))
      | _ \<Rightarrow> Inl (OSError ''Not a directory''))"

text \<open>
  \<^verbatim>\<open>save_model\<close> returns its outcome and the file system it leaves: what it wrote before
  a failure stays written.
\<close>

definition save_model ::
  "'a sae_scheme \<Rightarrow> string \<Rightarrow> vector option \<Rightarrow> filesystem \<Rightarrow> (error + unit) \<times> filesystem" where
  "save_model s path sparsity fs =
     (let fs1 = (if fs path = None then fs(path \<mapsto> Directory) else fs) in
      case write_file fs1 path SAE_WEIGHTS_PATH (SafeTensors (state_dict_of s)) of
        Inl e \<Rightarrow> (Inl e, fs1)
      | Inr fs2 \<Rightarrow>
          (case get_config_dict s of
             Inl e \<Rightarrow> (Inl e, fs2)
           | Inr config \<Rightarrow>
               (case write_file fs2 path SAE_CFG_PATH (JsonFile config) of
                  Inl e \<Rightarrow> (Inl e, fs2)
                | Inr fs3 \<Rightarrow>
                    (case sparsity of
                       None \<Rightarrow> (Inr (), fs3)
                     | Some sp \<Rightarrow>
                         (case write_file fs3 path SPARSITY_PATH
                                 (SafeTensors [(''sparsity'', Vec sp)]) of
                            Inl e \<Rightarrow> (Inl e, fs3)
                          | Inr fs4 \<Rightarrow> (Inr (), fs4))))))"

text \<open>
  \<^verbatim>\<open>load_state_dict\<close> in its strict mode: the keys must be those of the instance and
  every tensor must have the shape of the parameter it replaces.
\<close>

definition mat_shape :: "nat \<Rightarrow> nat \<Rightarrow> tensor \<Rightarrow> bool" where
  "mat_shape n m W = (length W = n \<and> list_all (\<lambda>r. length r = m) W)"

definition load_state_dict :: "state_dict \<Rightarrow> 'a sae_scheme \<Rightarrow> error + 'a sae_scheme" where
  "load_state_dict sd s =
     (if set (map fst sd) \<noteq> set (map fst (state_dict_of s))
      then Inl (RuntimeError ''Error(s) in loading state_dict: missing or unexpected key(s)'')
      else
        (case (map_of sd ''b_enc'', map_of sd ''W_dec'', map_of sd ''W_enc'', map_of sd ''b_dec'') of
           (Some (Vec be), Some (Mat wd), Some (Mat we), Some (Vec bd)) \<Rightarrow>
             if length be = length (b_enc s) \<and> mat_shape (d_sae s) (d_in s) wd
                \<and> mat_shape (d_in s) (d_sae s) we \<and> length bd = length (b_dec s)
             then
               (case scaling_factor s of
                  None \<Rightarrow> Inr (s\<lparr>b_enc := be, W_dec := wd, W_enc := we, b_dec := bd\<rparr>)
                | Some old \<Rightarrow>
                    (case map_of sd ''scaling_factor'' of
                       Some (Vec sf) \<Rightarrow>
                         if length sf = length old
                         then Inr (s\<lparr>b_enc := be, W_dec := wd, W_enc := we, b_dec := bd,
                                     scaling_factor := Some sf\<rparr>)
                         else Inl (RuntimeError ''Error(s) in loading state_dict: size mismatch'')
                     | _ \<Rightarrow> Inl (RuntimeError ''Error(s) in loading state_dict: size mismatch'')))
             else Inl (RuntimeError ''Error(s) in loading state_dict: size mismatch'')
         | _ \<Rightarrow> Inl (RuntimeError ''Error(s) in loading state_dict: size mismatch'')))"

text \<open>
  A configuration mapping as a loader returns it. A subscript on a missing key raises
  KeyError. The constructor's parameters are typed here: a value of another Python type
  than the parameter's annotation is refused with a TypeError.
\<close>

type_synonym cfg_map = "string \<Rightarrow> pyval option"

definition subscript :: "cfg_map \<Rightarrow> string \<Rightarrow> error + pyval" where
  "subscript d k = (case d k of None \<Rightarrow> Inl (KeyError k) | Some v \<Rightarrow> Inr v)"

definition as_nat :: "pyval \<Rightarrow> error + nat" where
  "as_nat v = (case v of PyInt n \<Rightarrow> if 0 \<le> n then Inr (nat n) else Inl (RuntimeError ''negative dimension'')
                       | _ \<Rightarrow> Inl (TypeError ''int''))"

definition as_int :: "pyval \<Rightarrow> error + int" where
  "as_int v = (case v of PyInt n \<Rightarrow> Inr n | _ \<Rightarrow> Inl (TypeError ''int''))"

definition as_opt_int :: "pyval \<Rightarrow> error + int option" where
  "as_opt_int v = (case v of PyInt n \<Rightarrow> Inr (Some n) | PyNone \<Rightarrow> Inr None | _ \<Rightarrow> Inl (TypeError ''Optional[int]''))"

definition as_str :: "pyval \<Rightarrow> error + string" where
  "as_str v = (case v of PyStr t \<Rightarrow> Inr t | _ \<Rightarrow> Inl (TypeError ''str''))"

definition as_bool :: "pyval \<Rightarrow> error + bool" where
  "as_bool v = (case v of PyBool b \<Rightarrow> Inr b | _ \<Rightarrow> Inl (TypeError ''bool''))"

text \<open>\<^verbatim>\<open>os.path.join(path, name)\<close> for a relative \<^verbatim>\<open>name\<close>.\<close>

definition os_path_join :: "string \<Rightarrow> string \<Rightarrow> string" where
  "os_path_join path name =
     (if path = [] \<or> last path = CHR ''/'' then path @ name else path @ ''/'' @ name)"

text \<open>
  \<^verbatim>\<open>load_from_pretrained\<close>. The reader of the two files,
  \<^verbatim>\<open>load_pretrained_sae_lens_sae_components\<close> (\<^verbatim>\<open>sae_lens/toolkit/pretrained_sae_loaders.py\<close>),
  is a parameter. The constructor gets nine arguments; \<^verbatim>\<open>apply_b_dec_to_input\<close>,
  \<^verbatim>\<open>uses_scaling_factor\<close> and the others keep their defaults.
\<close>

definition load_from_pretrained ::
  "(string \<Rightarrow> error + (tensor \<Rightarrow> tensor)) \<Rightarrow> draws
     \<Rightarrow> (string \<Rightarrow> string \<Rightarrow> string \<Rightarrow> string \<Rightarrow> error + (cfg_map \<times> state_dict))
     \<Rightarrow> string \<Rightarrow> string \<Rightarrow> string \<Rightarrow> error + sae" where
  "load_from_pretrained get_activation_fn dr load_pretrained_sae_lens_sae_components
       path device' dtype' =
     (let config_path = os_path_join path ''cfg.json'';
          weight_path = os_path_join path ''sae_weights.safetensors'' in
      and_then (load_pretrained_sae_lens_sae_components config_path weight_path device' dtype')
        (\<lambda>(cfg_dict, sd).
      and_then (subscript cfg_dict ''d_in'') (\<lambda>v_d_in.
      and_then (subscript cfg_dict ''d_sae'') (\<lambda>v_d_sae.
      and_then (subscript cfg_dict ''dtype'') (\<lambda>v_dtype.
      and_then (subscript cfg_dict ''device'') (\<lambda>v_device.
      and_then (subscript cfg_dict ''model_name'') (\<lambda>v_model_name.
      and_then (subscript cfg_dict ''hook_point'') (\<lambda>v_hook_point.
      and_then (subscript cfg_dict ''hook_point_layer'') (\<lambda>v_hook_point_layer.
      and_then (subscript cfg_dict ''hook_point_head_index'') (\<lambda>v_head_index.
      and_then (subscript cfg_dict ''activation_fn'') (\<lambda>v_activation_fn.
      and_then (as_nat v_d_in) (\<lambda>di.
      and_then (as_nat v_d_sae) (\<lambda>ds.
      and_then (as_str v_dtype) (\<lambda>dt.
      and_then (as_str v_device) (\<lambda>dv.
      and_then (as_str v_model_name) (\<lambda>mn.
      and_then (as_str v_hook_point) (\<lambda>hp.
      and_then (as_int v_hook_point_layer) (\<lambda>hl.
      and_then (as_opt_int v_head_index) (\<lambda>hi.
      and_then (as_str v_activation_fn) (\<lambda>af.
      and_then
        (SparseAutoencoderBase_init get_activation_fn dr
           ((required_args di ds dt dv mn hp hl)
              \<lparr>arg_hook_point_head_index := hi, arg_activation_fn := af\<rparr>))
        (\<lambda>s. load_state_dict sd s)))))))))))))))))))))"

text \<open>
  The directory of pretrained autoencoders (\<^verbatim>\<open>get_pretrained_saes_directory()\<close>) and
  the table \<^verbatim>\<open>NAMED_PRETRAINED_SAE_LOADERS\<close> are parameters. A loader takes
  \<^verbatim>\<open>repo_id\<close>, \<^verbatim>\<open>folder_name\<close>, \<^verbatim>\<open>device\<close> and \<^verbatim>\<open>force_download\<close>.
\<close>

record sae_info =
  repo_id :: string
  saes_map :: "string \<Rightarrow> string option"
  conversion_func :: "string option"

type_synonym loader = "string \<Rightarrow> string \<Rightarrow> string \<Rightarrow> bool \<Rightarrow> error + (cfg_map \<times> state_dict)"

text \<open>A call of a loader: its name in the table and its four arguments.\<close>

type_synonym loader_call = "string \<times> string \<times> string \<times> string \<times> bool"

text \<open>\<^verbatim>\<open>sae_info.conversion_func or "sae_lens"\<close>: \<^verbatim>\<open>None\<close> and the empty string are falsy.\<close>

definition conversion_loader_name_of :: "sae_info \<Rightarrow> string" where
  "conversion_loader_name_of info =
     (case conversion_func info of
        None \<Rightarrow> ''sae_lens''
      | Some n \<Rightarrow> if n = [] then ''sae_lens'' else n)"

text \<open>
  The part of \<^verbatim>\<open>from_pretrained\<close> after the loader has returned: the default of
  \<^verbatim>\<open>prepend_bos\<close>, the constructor and \<^verbatim>\<open>load_state_dict\<close>.
\<close>

definition build_from_components ::
  "(string \<Rightarrow> error + (tensor \<Rightarrow> tensor)) \<Rightarrow> draws \<Rightarrow> cfg_map \<Rightarrow> state_dict \<Rightarrow> error + sae" where
  "build_from_components get_activation_fn dr cfg_dict0 sd =
     (let cfg_dict = (if cfg_dict0 ''prepend_bos'' = None
                      then cfg_dict0(''prepend_bos'' \<mapsto> PyBool True) else cfg_dict0) in
      and_then (subscript cfg_dict ''d_in'') (\<lambda>v_d_in.
      and_then (subscript cfg_dict ''d_sae'') (\<lambda>v_d_sae.
      and_then (subscript cfg_dict ''dtype'') (\<lambda>v_dtype.
      and_then (subscript cfg_dict ''device'') (\<lambda>v_device.
      and_then (subscript cfg_dict ''model_name'') (\<lambda>v_model_name.
      and_then (subscript cfg_dict ''hook_point'') (\<lambda>v_hook_point.
      and_then (subscript cfg_dict ''hook_point_layer'') (\<lambda>v_hook_point_layer.
      and_then (subscript cfg_dict ''hook_point_head_index'') (\<lambda>v_head_index.
      and_then (if cfg_dict ''activation_fn'' \<noteq> None
                then subscript cfg_dict ''activation_fn'' else Inr (PyStr ''relu''))
        (\<lambda>v_activation_fn.
      and_then (subscript cfg_dict ''context_size'') (\<lambda>v_context_size.
      and_then (subscript cfg_dict ''dataset_path'') (\<lambda>v_dataset_path.
      and_then (subscript cfg_dict ''prepend_bos'') (\<lambda>v_prepend_bos.
      and_then (as_nat v_d_in) (\<lambda>di.
      and_then (as_nat v_d_sae) (\<lambda>ds.
      and_then (as_str v_dtype) (\<lambda>dt.
      and_then (as_str v_device) (\<lambda>dv.
      and_then (as_str v_model_name) (\<lambda>mn.
      and_then (as_str v_hook_point) (\<lambda>hp.
      and_then (as_int v_hook_point_layer) (\<lambda>hl.
      and_then (as_opt_int v_head_index) (\<lambda>hi.
      and_then (as_str v_activation_fn) (\<lambda>af.
      and_then (as_int v_context_size) (\<lambda>cs.
      and_then (as_str v_dataset_path) (\<lambda>dp.
      and_then (as_bool v_prepend_bos) (\<lambda>pb.
      and_then
        (SparseAutoencoderBase_init get_activation_fn dr
           ((required_args di ds dt dv mn hp hl)
              \<lparr>arg_hook_point_head_index := hi, arg_activation_fn := af,
               arg_prepend_bos := pb, arg_dataset_path := dp, arg_context_size := cs\<rparr>))
        (\<lambda>s. load_state_dict sd s))))))))))))))))))))))))))"

text \<open>
  \<^verbatim>\<open>from_pretrained\<close> returns its outcome and the loader calls it made, in order.
\<close>

definition from_pretrained ::
  "(string \<Rightarrow> error + (tensor \<Rightarrow> tensor)) \<Rightarrow> draws \<Rightarrow> (string \<Rightarrow> sae_info option)
     \<Rightarrow> (string \<Rightarrow> loader option) \<Rightarrow> string \<Rightarrow> string \<Rightarrow> string
     \<Rightarrow> (error + sae) \<times> loader_call list" where
  "from_pretrained get_activation_fn dr sae_directory NAMED_PRETRAINED_SAE_LOADERS
       release sae_id device' =
     (case sae_directory release of
        None \<Rightarrow>
          (Inl (ValueError (''Release '' @ release @ '' not found in pretrained SAEs directory.'')),
           [])
      | Some info \<Rightarrow>
          (case saes_map info sae_id of
             None \<Rightarrow>
               (Inl (ValueError (''ID '' @ sae_id @ '' not found in release '' @ release @ ''.'')),
                [])
           | Some hf_path \<Rightarrow>
               (let hf_repo_id = repo_id info;
                    conversion_loader_name = conversion_loader_name_of info in
                case NAMED_PRETRAINED_SAE_LOADERS conversion_loader_name of
                  None \<Rightarrow>
                    (Inl (ValueError (''Conversion func '' @ conversion_loader_name
                            @ '' not found in NAMED_PRETRAINED_SAE_LOADERS.'')),
                     [])
                | Some conversion_loader \<Rightarrow>
                    (let calls = [(conversion_loader_name, hf_repo_id, hf_path, device', False)] in
                     case conversion_loader hf_repo_id hf_path device' False of
                       Inl e \<Rightarrow> (Inl e, calls)
                     | Inr (cfg_dict, sd) \<Rightarrow>
                         (build_from_components get_activation_fn dr cfg_dict sd, calls)))))"

section \<open>Example instances\<close>

text \<open>
  The instances on which the theorems below are run. \<^verbatim>\<open>get_activation_fn\<close> is taken
  to know the name \<^verbatim>\<open>relu\<close>.
\<close>

definition relu :: "tensor \<Rightarrow> tensor" where
  "relu t = map (map (\<lambda>a. max a 0)) t"

definition resolve_activation :: "string \<Rightarrow> error + (tensor \<Rightarrow> tensor)" where
  "resolve_activation name =
     (if name = ''relu'' then Inr relu
      else Inl (ValueError (''Unknown activation function: '' @ name)))"

definition example_draws :: draws where
  "example_draws =
     \<lparr>kaiming_W_dec = (\<lambda>i j. if j = 0 then 3 / 5 else 4 / 5),
      kaiming_W_enc = (\<lambda>i j. 1 / 4),
      orthogonal_W_dec_T = (\<lambda>i j. if i = j then 1 else 0),
      rand_W_dec = (\<lambda>i j. if j = 0 then 3 / 10 else 2 / 5),
      kaiming_W_enc_complex = (\<lambda>i j. if i = j then 1 else 0)\<rparr>"

definition example_cfg :: runner_config where
  "example_cfg =
     \<lparr>cfg_d_in = 2, cfg_d_sae = 2, cfg_dtype = ''torch.float32'', cfg_device = ''cpu'',
      cfg_model_name = ''gpt2'', cfg_hook_point = ''blocks.0.hook_resid_pre'',
      cfg_hook_point_layer = 0, cfg_hook_point_head_index = None,
      cfg_activation_fn = ''relu'', cfg_apply_b_dec_to_input = True,
      cfg_finetuning_method = None, cfg_sae_lens_training_version = None,
      cfg_mse_loss_normalization = None, cfg_l1_coefficient = 1, cfg_lp_norm = 1,
      cfg_scale_sparsity_penalty_by_decoder_norm = False, cfg_use_ghost_grads = True,
      cfg_noise_scale = 1 / 2, cfg_normalize_sae_decoder = False,
      cfg_decoder_orthogonal_init = False, cfg_decoder_heuristic_init = False,
      cfg_init_encoder_as_decoder_transpose = False, cfg_act_store_device = ''cpu''\<rparr>"

text \<open>What \<^verbatim>\<open>TrainingSparseAutoencoder(example_cfg)\<close> builds from \<open>example_draws\<close>.\<close>

definition example_sae :: training_sae where
  "example_sae =
     \<lparr>d_in = 2, d_sae = 2, activation_fn_str = ''relu'', activation_fn = relu,
      apply_b_dec_to_input = True, uses_scaling_factor = False, model_name = ''gpt2'',
      hook_point = ''blocks.0.hook_resid_pre'', hook_point_layer = 0,
      hook_point_head_index = None, dataset_name = ''unknown'', prepend_bos = True,
      context_size = 256, dtype = ''torch.float32'', device = ''cpu'',
      sae_lens_training_version = None,
      b_enc = [0, 0], W_dec = [[3 / 5, 4 / 5], [3 / 5, 4 / 5]], W_enc = [[1, 0], [0, 1]],
      b_dec = [0, 0], scaling_factor = None, apply_scaling_factor = IdentityScaling,
      training = True, b_enc_grad = None, W_dec_grad = None, W_enc_grad = None,
      b_dec_grad = None, scaling_factor_grad = None, cfg = None,
      mse_loss_normalization = None, l1_coefficient = 1, lp_norm = 1,
      scale_sparsity_penalty_by_decoder_norm = False, use_ghost_grads = True,
      noise_scale = 1 / 2, normalize_sae_decoder = False, decoder_orthogonal_init = False,
      decoder_heuristic_init = False, init_encoder_as_decoder_transpose = False,
      get_sparsity_loss_term = SparsityStandard\<rparr>"

text \<open>The arguments of a base instance, and the instance \<open>example_draws\<close> gives it.\<close>

definition example_args :: sae_args where
  "example_args = required_args 2 2 ''torch.float32'' ''cpu'' ''gpt2'' ''blocks.0.hook_resid_pre'' 0"

definition example_base :: sae where
  "example_base =
     \<lparr>d_in = 2, d_sae = 2, activation_fn_str = ''relu'', activation_fn = relu,
      apply_b_dec_to_input = True, uses_scaling_factor = False, model_name = ''gpt2'',
      hook_point = ''blocks.0.hook_resid_pre'', hook_point_layer = 0,
      hook_point_head_index = None, dataset_name = ''unknown'', prepend_bos = True,
      context_size = 256, dtype = ''torch.float32'', device = ''cpu'',
      sae_lens_training_version = None,
      b_enc = [0, 0], W_dec = [[3 / 5, 4 / 5], [3 / 5, 4 / 5]],
      W_enc = [[1 / 4, 1 / 4], [1 / 4, 1 / 4]],
      b_dec = [0, 0], scaling_factor = None, apply_scaling_factor = IdentityScaling,
      training = True, b_enc_grad = None, W_dec_grad = None, W_enc_grad = None,
      b_dec_grad = None, scaling_factor_grad = None, cfg = None\<rparr>"

text \<open>
  A directory of two releases and a loader table that knows \<^verbatim>\<open>sae_lens\<close> only; the
  loader returns a fixed configuration and state dictionary.
\<close>

definition example_cfg_map :: cfg_map where
  "example_cfg_map =
     [''d_in'' \<mapsto> PyInt 2, ''d_sae'' \<mapsto> PyInt 2, ''dtype'' \<mapsto> PyStr ''torch.float32'',
      ''device'' \<mapsto> PyStr ''cpu'', ''model_name'' \<mapsto> PyStr ''gpt2'',
      ''hook_point'' \<mapsto> PyStr ''blocks.0.hook_resid_pre'', ''hook_point_layer'' \<mapsto> PyInt 0,
      ''hook_point_head_index'' \<mapsto> PyNone, ''context_size'' \<mapsto> PyInt 128,
      ''dataset_path'' \<mapsto> PyStr ''openwebtext'']"

definition example_state_dict :: state_dict where
  "example_state_dict =
     [(''W_enc'', Mat [[1, 2], [3, 4]]), (''b_enc'', Vec [5, 6]),
      (''W_dec'', Mat [[1, 0], [0, 1]]), (''b_dec'', Vec [7, 8])]"

definition example_loader :: loader where
  "example_loader repo folder device' force_download = Inr (example_cfg_map, example_state_dict)"

definition example_loaders :: "string \<Rightarrow> loader option" where
  "example_loaders = [''sae_lens'' \<mapsto> example_loader]"

definition example_directory :: "string \<Rightarrow> sae_info option" where
  "example_directory =
     [''gpt2-small-res-jb'' \<mapsto>
        \<lparr>repo_id = ''jbloom/GPT2-Small-SAEs-Reformatted'',
         saes_map = [''blocks.0.hook_resid_pre'' \<mapsto> ''blocks.0.hook_resid_pre''],
         conversion_func = None\<rparr>,
      ''gpt2-small-hook-z-kk'' \<mapsto>
        \<lparr>repo_id = ''ckkissane/attn-saes-gpt2-small-all-layers'',
         saes_map = [''blocks.0.hook_z'' \<mapsto> ''gpt2-small_L0_Hcat_z.pt''],
         conversion_func = Some ''connor_rob_hook_z''\<rparr>]"

text \<open>
  The example configuration with the heuristic decoder initialisation requested, alone
  and together with the unit-norm one, and the instances the constructor builds from
  them.
\<close>

definition heuristic_cfg :: runner_config where
  "heuristic_cfg = example_cfg\<lparr>cfg_decoder_heuristic_init := True\<rparr>"

definition heuristic_sae :: training_sae where
  "heuristic_sae =
     example_sae\<lparr>decoder_heuristic_init := True,
                 W_dec := [[3 / 50, 2 / 25], [3 / 50, 2 / 25]]\<rparr>"

definition heuristic_unit_cfg :: runner_config where
  "heuristic_unit_cfg =
     example_cfg\<lparr>cfg_decoder_heuristic_init := True, cfg_normalize_sae_decoder := True\<rparr>"

definition heuristic_unit_sae :: training_sae where
  "heuristic_unit_sae =
     example_sae\<lparr>decoder_heuristic_init := True, normalize_sae_decoder := True\<rparr>"

text \<open>
  The example configuration with the orthogonal and the heuristic decoder initialisation
  both requested, and the instance the constructor builds from it.
\<close>

definition orthogonal_heuristic_cfg :: runner_config where
  "orthogonal_heuristic_cfg =
     example_cfg\<lparr>cfg_decoder_orthogonal_init := True, cfg_decoder_heuristic_init := True\<rparr>"

definition orthogonal_heuristic_sae :: training_sae where
  "orthogonal_heuristic_sae =
     example_sae\<lparr>decoder_orthogonal_init := True, decoder_heuristic_init := True,
                 W_dec := [[1, 0], [0, 1]]\<rparr>"






section \<open>Basic facts\<close>

lemma and_then_Inr [simp]: "and_then (Inr v) f = f v"
  by (simp add: and_then_def)

lemma and_then_Inl [simp]: "and_then (Inl e) f = Inl e"
  by (simp add: and_then_def)

lemma sequence_all_Inr:
  "(\<And>x. x \<in> set xs \<Longrightarrow> g x = Inr (f x)) \<Longrightarrow> sequence (map g xs) = Inr (map f xs)"
  by (induction xs) simp_all

lemma broadcast_vec_same: "length a = length b \<Longrightarrow> broadcast_vec f a b = Inr (map2 f a b)"
  by (simp add: broadcast_vec_def)

lemma tabulate2_two: "tabulate2 2 2 f = [[f 0 0, f 0 1], [f 1 0, f 1 1]]"
  by (simp add: tabulate2_def upt_conv_Cons)

lemma zeros_two: "zeros 2 = [0, 0]"
  by (simp add: zeros_def numeral_2_eq_2)

text \<open>The example instances are what the constructors build.\<close>

lemma example_base_init:
  "SparseAutoencoderBase_init resolve_activation example_draws example_args = Inr example_base"
  by (simp add: SparseAutoencoderBase_init_def resolve_activation_def example_args_def
      required_args_def initialize_weights_basic_def example_draws_def example_base_def
      tabulate2_two zeros_two Let_def)

lemma example_sae_init:
  "TrainingSparseAutoencoder_init resolve_activation example_draws example_cfg = Inr example_sae"
  by (simp add: TrainingSparseAutoencoder_init_def SparseAutoencoderBase_init_def
      resolve_activation_def example_cfg_def initialize_weights_basic_def example_draws_def
      example_sae_def initialize_weights_complex_def sae.extend_def training_sae.fields_def
      tabulate2_two zeros_two Let_def)

section \<open>The noise of the training encoder\<close>

lemma map_enumerate_snd: "map (\<lambda>(i, r). g r) (enumerate n h) = map g h"
  by (induction h arbitrary: n) simp_all

lemma map2_add_zero: "map2 (\<lambda>a b. a + b) r (replicate (length r) (0::real)) = r"
  by (induction r) simp_all

lemma add_zero_tensor:
  "broadcast_tensor (\<lambda>a b. a + b) h (map (\<lambda>r. replicate (length r) 0) h) = Inr h"
proof -
  have "sequence (map (\<lambda>(r, q). broadcast_vec (\<lambda>a b. a + b) r q)
          (zip h (map (\<lambda>r. replicate (length r) 0) h))) = Inr h"
    by (induction h) (simp_all add: broadcast_vec_same map2_add_zero)
  then show ?thesis by (simp add: broadcast_tensor_def)
qed

text \<open>
  With \<^verbatim>\<open>noise_scale\<close> zero or outside training the scaled noise is the zero tensor of
  the shape of \<^verbatim>\<open>hidden_pre\<close>, whatever was drawn.
\<close>

lemma silent_noise:
  assumes "noise_scale s = 0 \<or> \<not> training s"
  shows "map (map (\<lambda>n. n * noise_scale s * (if training s then 1 else 0))) (randn_like noise h)
         = map (\<lambda>r. replicate (length r) 0) h"
proof -
  have zero: "(\<lambda>n. n * noise_scale s * (if training s then 1 else 0)) = (\<lambda>n. 0)"
    using assms by auto
  have "map (map (\<lambda>n::real. 0::real)) (randn_like noise h)
        = map (\<lambda>(i, r). replicate (length r) 0) (enumerate 0 h)"
    unfolding randn_like_def by (simp add: split_def comp_def map_replicate_const)
  also have "\<dots> = map (\<lambda>r. replicate (length r) 0) h"
    by (rule map_enumerate_snd)
  finally show ?thesis by (simp only: zero)
qed

lemma example_eval_encode:
  "encode_with_hidden_pre (example_sae\<lparr>training := False\<rparr>) noise [[1, -2]]
     = Inr ([[1, 0]], [[1, -2]])"
  by (simp add: encode_with_hidden_pre_def example_sae_def randn_like_def broadcast_tensor_def
      broadcast_rows_def broadcast_vec_def times_bool_def matmul_def vec_mat_def HookPoint_def
      relu_def upt_conv_Cons)

text \<open>
  Claim C3. With \<^verbatim>\<open>noise_scale\<close> equal to 0 or with training mode off, two calls of
  \<^verbatim>\<open>_encode_with_hidden_pre\<close> on the same input return the same pair of feature
  activations and pre-activations, whatever random numbers the two calls draw: the
  outcome (the pair, or the error of an ill-shaped input) does not depend on the draw.
\<close>

theorem encode_with_hidden_pre_deterministic:
  assumes "noise_scale s = 0 \<or> \<not> training s"
  shows "encode_with_hidden_pre s noise1 x = encode_with_hidden_pre s noise2 x"
  unfolding encode_with_hidden_pre_def by (simp add: silent_noise[OF assms])

theorem encode_with_hidden_pre_deterministic_witness:
  "training (example_sae\<lparr>training := False\<rparr>) = False
   \<and> encode_with_hidden_pre (example_sae\<lparr>training := False\<rparr>) (\<lambda>i j. 1) [[1, -2]]
       = encode_with_hidden_pre (example_sae\<lparr>training := False\<rparr>) (\<lambda>i j. -3) [[1, -2]]
   \<and> encode_with_hidden_pre (example_sae\<lparr>training := False\<rparr>) (\<lambda>i j. -3) [[1, -2]]
       = Inr ([[1, 0]], [[1, -2]])"
  using encode_with_hidden_pre_deterministic
          [of "example_sae\<lparr>training := False\<rparr>" "\<lambda>i j. 1" "[[1, -2]]" "\<lambda>i j. -3"]
  by (simp add: example_eval_encode)

text \<open>
  Claim C9. With training mode off, \<^verbatim>\<open>TrainingSparseAutoencoder.encode\<close> returns on
  every input what \<^verbatim>\<open>SparseAutoencoderBase.encode\<close> returns on the same instance state:
  the same feature activations, or the same error.
\<close>

theorem training_encode_refines_base_encode:
  assumes "\<not> training s"
  shows "TrainingSparseAutoencoder_encode s noise x = SparseAutoencoderBase_encode s x"
proof -
  have quiet: "noise_scale s = 0 \<or> \<not> training s" using assms by simp
  show ?thesis
    unfolding TrainingSparseAutoencoder_encode_def encode_with_hidden_pre_def
      SparseAutoencoderBase_encode_def
    by (simp add: silent_noise[OF quiet] add_zero_tensor and_then_def Let_def HookPoint_def
        split: sum.splits)
qed

theorem training_encode_refines_base_encode_witness:
  "training (example_sae\<lparr>training := False\<rparr>) = False
   \<and> TrainingSparseAutoencoder_encode (example_sae\<lparr>training := False\<rparr>) (\<lambda>i j. 1) [[1, -2]]
       = SparseAutoencoderBase_encode (example_sae\<lparr>training := False\<rparr>) [[1, -2]]
   \<and> SparseAutoencoderBase_encode (example_sae\<lparr>training := False\<rparr>) [[1, -2]] = Inr [[1, 0]]"
  using training_encode_refines_base_encode
          [of "example_sae\<lparr>training := False\<rparr>" "\<lambda>i j. 1" "[[1, -2]]"]
  by (simp add: SparseAutoencoderBase_encode_def example_sae_def
      broadcast_rows_def broadcast_vec_def times_bool_def matmul_def vec_mat_def HookPoint_def
      relu_def upt_conv_Cons)

section \<open>The ghost-gradient gate of the training forward pass\<close>

lemma example_eval_forward:
  "TrainingSparseAutoencoder_forward example_sae (\<lambda>i j. 2) [[1, -2]] (Some [False, False])
     = Inr \<lparr>sae_out = [[6 / 5, 8 / 5]], feature_acts = [[2, 0]], loss = 15, mse_loss = 13,
            l1_loss = 2, ghost_grad_loss = PyNumber 0\<rparr>"
  by (simp add: TrainingSparseAutoencoder_forward_def encode_with_hidden_pre_def decode_def
      apply_scaling_def per_item_mse_loss_with_target_norm_def mse_loss_none_def
      sparsity_term_def get_sparsity_loss_term_standard_def lp_norm_of_def mean_def
      example_sae_def randn_like_def broadcast_tensor_def mask_sum_def
      broadcast_rows_def broadcast_vec_def times_bool_def matmul_def vec_mat_def HookPoint_def
      relu_def upt_conv_Cons)

text \<open>
  Claim C2. Whenever \<^verbatim>\<open>forward\<close> returns, the \<^verbatim>\<open>ghost_grad_loss\<close> of its output is
  the number 0 if \<^verbatim>\<open>use_ghost_grads\<close> is off, or the instance is not in training mode, or
  \<^verbatim>\<open>dead_neuron_mask\<close> is \<^verbatim>\<open>None\<close>, or the mask has no set entry; each of the four
  conditions suffices on its own.
\<close>

theorem forward_ghost_grad_loss_zero:
  assumes "\<not> use_ghost_grads s \<or> \<not> training s \<or> dead_neuron_mask = None
           \<or> (\<exists>m. dead_neuron_mask = Some m \<and> mask_sum m = 0)"
    and "TrainingSparseAutoencoder_forward s noise x dead_neuron_mask = Inr result"
  shows "ghost_grad_loss result = PyNumber 0"
proof -
  have gate: "(if use_ghost_grads s \<and> training s
        then (case dead_neuron_mask of
                None \<Rightarrow> Inr (PyNumber 0)
              | Some m \<Rightarrow>
                  if 0 < mask_sum m
                  then and_then (calculate_ghost_grad_loss s x out' p h m) (\<lambda>g. Inr (TensorScalar g))
                  else Inr (PyNumber 0))
        else Inr (PyNumber 0)) = Inr (PyNumber 0)" for out' p h
    using assms(1) by (auto split: option.splits)
  show ?thesis
    using assms(2) unfolding TrainingSparseAutoencoder_forward_def
    by (auto simp: gate and_then_def Let_def split: sum.splits prod.splits)
qed

theorem forward_ghost_grad_loss_zero_witness:
  "mask_sum [False, False] = 0
   \<and> TrainingSparseAutoencoder_forward example_sae (\<lambda>i j. 2) [[1, -2]] (Some [False, False])
       = Inr \<lparr>sae_out = [[6 / 5, 8 / 5]], feature_acts = [[2, 0]], loss = 15, mse_loss = 13,
              l1_loss = 2, ghost_grad_loss = PyNumber 0\<rparr>
   \<and> ghost_grad_loss \<lparr>sae_out = [[6 / 5, 8 / 5]], feature_acts = [[2, 0]], loss = 15,
                        mse_loss = 13, l1_loss = 2, ghost_grad_loss = PyNumber 0\<rparr> = PyNumber 0"
  using forward_ghost_grad_loss_zero
          [of example_sae "Some [False, False]" "\<lambda>i j. 2" "[[1, -2]]", OF _ example_eval_forward]
  by (simp add: example_eval_forward mask_sum_def)

section \<open>Recalibration of the decoder bias\<close>

lemma example_eval_mean:
  "initialize_b_dec_with_mean example_sae [[3, 4]] = Inr (example_sae\<lparr>b_dec := [3, 4]\<rparr>, 5, 0)"
  by (simp add: initialize_b_dec_with_mean_def mean_dim0_def median0_def l2_norm_def
      broadcast_rows_def broadcast_vec_def example_sae_def Let_def)

text \<open>
  Claim C10. \<^verbatim>\<open>initialize_b_dec_with_precalculated\<close> and \<^verbatim>\<open>initialize_b_dec_with_mean\<close>
  change \<^verbatim>\<open>b_dec\<close> only: \<^verbatim>\<open>W_enc\<close>, \<^verbatim>\<open>W_dec\<close>, \<^verbatim>\<open>b_enc\<close> and \<^verbatim>\<open>scaling_factor\<close>
  are the same after the call, and the instance after the call is the instance before it
  with another \<^verbatim>\<open>b_dec\<close>. (A call of \<^verbatim>\<open>initialize_b_dec_with_mean\<close> that raises assigns
  nothing.)
\<close>

theorem b_dec_recalibration_frame:
  "W_enc (initialize_b_dec_with_precalculated s origin) = W_enc s
   \<and> W_dec (initialize_b_dec_with_precalculated s origin) = W_dec s
   \<and> b_enc (initialize_b_dec_with_precalculated s origin) = b_enc s
   \<and> scaling_factor (initialize_b_dec_with_precalculated s origin) = scaling_factor s
   \<and> initialize_b_dec_with_precalculated s origin
       = s\<lparr>b_dec := b_dec (initialize_b_dec_with_precalculated s origin)\<rparr>
   \<and> (\<forall>s' printed_previous printed_new.
         initialize_b_dec_with_mean s all_activations = Inr (s', printed_previous, printed_new)
         \<longrightarrow> W_enc s' = W_enc s \<and> W_dec s' = W_dec s \<and> b_enc s' = b_enc s
             \<and> scaling_factor s' = scaling_factor s \<and> s' = s\<lparr>b_dec := b_dec s'\<rparr>)"
  by (auto simp: initialize_b_dec_with_precalculated_def initialize_b_dec_with_mean_def
      and_then_def Let_def split: sum.splits)

theorem b_dec_recalibration_frame_witness:
  "initialize_b_dec_with_mean example_sae [[3, 4]] = Inr (example_sae\<lparr>b_dec := [3, 4]\<rparr>, 5, 0)
   \<and> W_enc (example_sae\<lparr>b_dec := [3, 4]\<rparr>) = W_enc example_sae
   \<and> W_dec (example_sae\<lparr>b_dec := [3, 4]\<rparr>) = W_dec example_sae
   \<and> b_enc (example_sae\<lparr>b_dec := [3, 4]\<rparr>) = b_enc example_sae
   \<and> scaling_factor (example_sae\<lparr>b_dec := [3, 4]\<rparr>) = scaling_factor example_sae
   \<and> b_dec (example_sae\<lparr>b_dec := [3, 4]\<rparr>) \<noteq> b_dec example_sae"
  using b_dec_recalibration_frame [of example_sae "[3, 4]" "[[3, 4]]"] example_eval_mean
  by (simp add: example_sae_def)

section \<open>The projection of the decoder gradient\<close>

lemma same_shape_length: "same_shape a b \<Longrightarrow> length a = length b"
  unfolding same_shape_def by (metis length_map)

lemma same_shape_nth: "same_shape a b \<Longrightarrow> i < length a \<Longrightarrow> length (a ! i) = length (b ! i)"
  unfolding same_shape_def by (metis length_map nth_map)

lemma same_shape_zip:
  assumes "same_shape a b" "(r, q) \<in> set (zip a b)"
  shows "length r = length q"
proof -
  from assms(2) obtain i where "i < length a" "i < length b" "r = a ! i" "q = b ! i"
    by (auto simp: set_zip)
  then show ?thesis using same_shape_nth[OF assms(1)] by simp
qed

lemma broadcast_tensor_same:
  assumes "same_shape a b"
  shows "broadcast_tensor f a b = Inr (map2 (\<lambda>r q. map2 f r q) a b)"
proof -
  have "sequence (map (\<lambda>(r, q). broadcast_vec f r q) (zip a b))
        = Inr (map (\<lambda>(r, q). map2 f r q) (zip a b))"
    by (rule sequence_all_Inr) (auto simp: broadcast_vec_same dest: same_shape_zip[OF assms])
  then show ?thesis
    using same_shape_length[OF assms] by (simp add: broadcast_tensor_def)
qed

lemma broadcast_vec_singleton: "broadcast_vec f [c] w = Inr (map (f c) w)"
  by (cases w rule: list.exhaust; cases "tl w") (auto simp: broadcast_vec_def)

lemma broadcast_tensor_column:
  assumes "length cs = length W"
  shows "broadcast_tensor f (map (\<lambda>c. [c]) cs) W = Inr (map2 (\<lambda>c w. map (f c) w) cs W)"
proof -
  have "sequence (map (\<lambda>(r, q). broadcast_vec f r q) (zip (map (\<lambda>c. [c]) cs) W))
        = Inr (map (\<lambda>(r, q). map (f (hd r)) q) (zip (map (\<lambda>c. [c]) cs) W))"
    by (rule sequence_all_Inr) (auto simp: broadcast_vec_singleton set_zip)
  also have "map (\<lambda>(r, q). map (f (hd r)) q) (zip (map (\<lambda>c. [c]) cs) W)
             = map2 (\<lambda>c w. map (f c) w) cs W"
    by (simp add: zip_map1 split_def)
  finally show ?thesis using assms by (simp add: broadcast_tensor_def)
qed

lemma sum_list_map2_nth:
  "length a = length b \<Longrightarrow> sum_list (map2 (\<lambda>x y. x * y) a b) = (\<Sum>k<length a. a ! k * b ! k :: real)"
  by (simp add: sum_list_sum_nth atLeast0LessThan)

lemma example_eval_remove:
  "remove_gradient_parallel_to_decoder_directions (example_sae\<lparr>W_dec_grad := Some [[1, 0], [0, 1]]\<rparr>)
   = Inr (example_sae\<lparr>W_dec_grad := Some [[16 / 25, - (12 / 25)], [- (12 / 25), 9 / 25]]\<rparr>)"
  by (simp add: remove_gradient_parallel_to_decoder_directions_def example_sae_def isub_def
      same_shape_def broadcast_tensor_def broadcast_vec_def Let_def)

text \<open>
  Claim C7. When the gradient \<open>g\<close> of \<^verbatim>\<open>W_dec\<close> is populated (with the shape of
  \<^verbatim>\<open>W_dec\<close>), \<^verbatim>\<open>remove_gradient_parallel_to_decoder_directions\<close> replaces it by \<open>g'\<close>
  with \<open>g' i j = g i j - (g i \<cdot> w i) * w i j\<close> for every row \<open>i\<close> of \<^verbatim>\<open>W_dec\<close>, and
  changes nothing else of the instance; with no gradient the call fails its assertion.
\<close>

theorem remove_gradient_parallel_to_decoder_directions_spec:
  "(W_dec_grad s = None \<longrightarrow>
      remove_gradient_parallel_to_decoder_directions s = Inl AssertionError)
   \<and> (\<forall>g. W_dec_grad s = Some g \<and> same_shape g (W_dec s) \<longrightarrow>
        (\<exists>g'. remove_gradient_parallel_to_decoder_directions s = Inr (s\<lparr>W_dec_grad := Some g'\<rparr>)
           \<and> same_shape g' g
           \<and> (\<forall>i<length g. \<forall>j<length (g ! i).
                 g' ! i ! j
                 = g ! i ! j - (\<Sum>k<length (g ! i). g ! i ! k * W_dec s ! i ! k) * W_dec s ! i ! j)))"
proof (intro conjI allI impI)
  assume "W_dec_grad s = None"
  then show "remove_gradient_parallel_to_decoder_directions s = Inl AssertionError"
    by (simp add: remove_gradient_parallel_to_decoder_directions_def)
next
  fix g
  assume a: "W_dec_grad s = Some g \<and> same_shape g (W_dec s)"
  define W where "W = W_dec s"
  have shape: "same_shape g W" and grad: "W_dec_grad s = Some g" using a W_def by simp_all
  have len: "length g = length W" by (rule same_shape_length[OF shape])
  have row: "length (g ! i) = length (W ! i)" if "i < length g" for i
    by (rule same_shape_nth[OF shape that])
  define products where "products = map2 (\<lambda>r q. map2 (\<lambda>a b. a * b) r q) g W"
  define pc where "pc = map sum_list products"
  define projection where "projection = map2 (\<lambda>c w. map (\<lambda>b. c * b) w) pc W"
  define g' where "g' = map2 (\<lambda>r q. map2 (\<lambda>p q. p - q) r q) g projection"
  have lpc: "length pc = length W" by (simp add: pc_def products_def len)
  have lproj: "length projection = length W" by (simp add: projection_def lpc)
  have projrow: "length (projection ! i) = length (W ! i)" if "i < length W" for i
    using that by (simp add: projection_def lpc)
  have shape2: "same_shape g projection"
    unfolding same_shape_def
    by (rule nth_equalityI) (simp_all add: lproj len projrow row)
  have shape3: "same_shape g' g"
    unfolding same_shape_def
    by (rule nth_equalityI) (simp_all add: g'_def lproj len projrow row)
  have s1: "broadcast_tensor (\<lambda>a b. a * b) g W = Inr products"
    by (simp add: broadcast_tensor_same[OF shape] products_def)
  have s2: "broadcast_tensor (\<lambda>a b. a * b) (map (\<lambda>c. [c]) pc) W = Inr projection"
    by (simp add: broadcast_tensor_column[OF lpc] projection_def)
  have s3: "isub g projection = Inr g'"
    by (simp add: isub_def broadcast_tensor_same[OF shape2] g'_def[symmetric] shape3)
  have run: "remove_gradient_parallel_to_decoder_directions s = Inr (s\<lparr>W_dec_grad := Some g'\<rparr>)"
    unfolding remove_gradient_parallel_to_decoder_directions_def grad W_def[symmetric]
    by (simp only: option.case s1 and_then_Inr Let_def pc_def[symmetric] s2 s3)
  have entry: "g' ! i ! j = g ! i ! j - (\<Sum>k<length (g ! i). g ! i ! k * W ! i ! k) * W ! i ! j"
    if "i < length g" "j < length (g ! i)" for i j
  proof -
    have i: "i < length W" using that len by simp
    have j: "j < length (W ! i)" using that row by simp
    have "pc ! i = sum_list (map2 (\<lambda>a b. a * b) (g ! i) (W ! i))"
      using that i by (simp add: pc_def products_def)
    also have "\<dots> = (\<Sum>k<length (g ! i). g ! i ! k * W ! i ! k)"
      by (rule sum_list_map2_nth) (rule row[OF that(1)])
    finally have pci: "pc ! i = (\<Sum>k<length (g ! i). g ! i ! k * W ! i ! k)" .
    have "projection ! i ! j = pc ! i * W ! i ! j"
      using i j by (simp add: projection_def lpc)
    moreover have "g' ! i ! j = g ! i ! j - projection ! i ! j"
      using that i j by (simp add: g'_def lproj projrow)
    ultimately show ?thesis using pci by simp
  qed
  show "\<exists>g'. remove_gradient_parallel_to_decoder_directions s = Inr (s\<lparr>W_dec_grad := Some g'\<rparr>)
           \<and> same_shape g' g
           \<and> (\<forall>i<length g. \<forall>j<length (g ! i).
                 g' ! i ! j
                 = g ! i ! j - (\<Sum>k<length (g ! i). g ! i ! k * W_dec s ! i ! k) * W_dec s ! i ! j)"
    using run shape3 entry unfolding W_def by blast
qed

theorem remove_gradient_parallel_to_decoder_directions_spec_witness:
  "W_dec_grad (example_sae\<lparr>W_dec_grad := Some [[1, 0], [0, 1]]\<rparr>) = Some [[1, 0], [0, 1]]
   \<and> same_shape [[1, 0], [0, 1]] (W_dec (example_sae\<lparr>W_dec_grad := Some [[1, 0], [0, 1]]\<rparr>))
   \<and> remove_gradient_parallel_to_decoder_directions (example_sae\<lparr>W_dec_grad := Some [[1, 0], [0, 1]]\<rparr>)
       = Inr (example_sae\<lparr>W_dec_grad := Some [[16 / 25, - (12 / 25)], [- (12 / 25), 9 / 25]]\<rparr>)
   \<and> remove_gradient_parallel_to_decoder_directions example_sae = Inl AssertionError"
  using remove_gradient_parallel_to_decoder_directions_spec
          [of "example_sae\<lparr>W_dec_grad := Some [[1, 0], [0, 1]]\<rparr>"]
        remove_gradient_parallel_to_decoder_directions_spec [of example_sae]
        example_eval_remove
  by (simp add: example_sae_def same_shape_def)

section \<open>Decoding without a scaling factor\<close>

lemma init_installs_scaling:
  assumes "SparseAutoencoderBase_init get_activation_fn dr a = Inr s"
  shows "apply_scaling_factor s
         = (if arg_uses_scaling_factor a then TimesScalingFactor else IdentityScaling)"
    and "uses_scaling_factor s = arg_uses_scaling_factor a"
    and "scaling_factor s = (if arg_uses_scaling_factor a then Some (ones (arg_d_sae a)) else None)"
    and "length (W_dec s) = d_sae s" and "length (b_dec s) = d_in s"
    and "length (W_enc s) = d_in s" and "length (b_enc s) = d_sae s"
    and "cfg s = None"
  using assms
  by (auto simp: SparseAutoencoderBase_init_def initialize_weights_basic_def and_then_def Let_def
      tabulate2_def zeros_def split: sum.splits)

lemma sum_zero_row: "sum_list (map2 (\<lambda>a w. a * g w) (replicate n (0::real)) W) = 0"
  by (induction n arbitrary: W) (auto simp: zip_Cons1 split: list.splits)

lemma vec_mat_zero: "length W = n \<Longrightarrow> vec_mat m (replicate n 0) W = Inr (replicate m 0)"
  by (simp add: vec_mat_def sum_zero_row map_replicate_const)

lemma map2_zero_add: "length b = m \<Longrightarrow> map2 (\<lambda>x y. x + y) (replicate m (0::real)) b = b"
  by (induction m arbitrary: b) (auto simp: zip_Cons1 split: list.splits)

lemma example_eval_decode:
  "decode (example_base\<lparr>b_dec := [7, -1]\<rparr>) [[0, 0], [0, 0], [0, 0]]
   = Inr [[7, -1], [7, -1], [7, -1]]"
  by (simp add: decode_def apply_scaling_def example_base_def matmul_def vec_mat_def
      broadcast_rows_def broadcast_vec_def HookPoint_def upt_conv_Cons)

text \<open>
  Claim C8. The constructor called with \<^verbatim>\<open>uses_scaling_factor=False\<close> installs the
  identity as \<^verbatim>\<open>apply_scaling_factor\<close> and creates no \<^verbatim>\<open>scaling_factor\<close>; and on an
  instance with that identity (its \<^verbatim>\<open>W_dec\<close> and \<^verbatim>\<open>b_dec\<close> of the shapes the constructor
  allocated) \<^verbatim>\<open>decode\<close> of an all-zero feature tensor of any batch size returns
  \<^verbatim>\<open>b_dec\<close> in every row.
\<close>

theorem decode_zero_features_is_b_dec:
  "(SparseAutoencoderBase_init get_activation_fn dr a = Inr s0 \<and> \<not> arg_uses_scaling_factor a
      \<longrightarrow> apply_scaling_factor s0 = IdentityScaling \<and> scaling_factor s0 = None
          \<and> length (W_dec s0) = d_sae s0 \<and> length (b_dec s0) = d_in s0)
   \<and> (apply_scaling_factor s = IdentityScaling \<and> length (W_dec s) = d_sae s
        \<and> length (b_dec s) = d_in s
      \<longrightarrow> decode s (replicate batch (zeros (d_sae s))) = Inr (replicate batch (b_dec s)))"
proof (rule conjI)
  show "SparseAutoencoderBase_init get_activation_fn dr a = Inr s0 \<and> \<not> arg_uses_scaling_factor a
      \<longrightarrow> apply_scaling_factor s0 = IdentityScaling \<and> scaling_factor s0 = None
          \<and> length (W_dec s0) = d_sae s0 \<and> length (b_dec s0) = d_in s0"
    using init_installs_scaling[of get_activation_fn dr a s0] by simp
next
  show "apply_scaling_factor s = IdentityScaling \<and> length (W_dec s) = d_sae s
        \<and> length (b_dec s) = d_in s
      \<longrightarrow> decode s (replicate batch (zeros (d_sae s))) = Inr (replicate batch (b_dec s))"
  proof (rule impI)
  assume h: "apply_scaling_factor s = IdentityScaling \<and> length (W_dec s) = d_sae s
        \<and> length (b_dec s) = d_in s"
  have mm: "matmul (d_in s) (replicate batch (zeros (d_sae s))) (W_dec s)
            = Inr (replicate batch (replicate (d_in s) 0))"
    unfolding matmul_def zeros_def
    using sequence_all_Inr[of "replicate batch (replicate (d_sae s) 0)"
            "\<lambda>r. vec_mat (d_in s) r (W_dec s)" "\<lambda>r. replicate (d_in s) 0"]
    by (simp add: vec_mat_zero h map_replicate_const)
  have add: "broadcast_rows (\<lambda>a b. a + b) (replicate batch (replicate (d_in s) 0)) (b_dec s)
             = Inr (replicate batch (b_dec s))"
    unfolding broadcast_rows_def
    using sequence_all_Inr[of "replicate batch (replicate (d_in s) 0)"
            "\<lambda>r. broadcast_vec (\<lambda>a b. a + b) r (b_dec s)" "\<lambda>r. b_dec s"]
    by (simp add: broadcast_vec_same h map2_zero_add map_replicate_const)
  show "decode s (replicate batch (zeros (d_sae s))) = Inr (replicate batch (b_dec s))"
    by (simp add: decode_def apply_scaling_def h mm add HookPoint_def)
  qed
qed

theorem decode_zero_features_is_b_dec_witness:
  "SparseAutoencoderBase_init resolve_activation example_draws example_args = Inr example_base
   \<and> arg_uses_scaling_factor example_args = False
   \<and> apply_scaling_factor (example_base\<lparr>b_dec := [7, -1]\<rparr>) = IdentityScaling
   \<and> decode (example_base\<lparr>b_dec := [7, -1]\<rparr>) (replicate 3 (zeros 2))
       = Inr (replicate 3 [7, -1])"
  using decode_zero_features_is_b_dec
          [of resolve_activation example_draws example_args example_base
              "example_base\<lparr>b_dec := [7, -1]\<rparr>" 3]
        example_base_init
  by (simp add: example_base_def example_args_def required_args_def)

section \<open>Loading a pretrained autoencoder\<close>

lemma example_from_pretrained_release:
  "from_pretrained resolve_activation example_draws example_directory example_loaders
     ''pythia-70m'' ''blocks.0.hook_resid_pre'' ''cpu''
   = (Inl (ValueError ''Release pythia-70m not found in pretrained SAEs directory.''), [])"
  by (simp add: from_pretrained_def example_directory_def)

lemma example_from_pretrained_id:
  "from_pretrained resolve_activation example_draws example_directory example_loaders
     ''gpt2-small-res-jb'' ''blocks.9.hook_z'' ''cpu''
   = (Inl (ValueError ''ID blocks.9.hook_z not found in release gpt2-small-res-jb.''), [])"
  by (simp add: from_pretrained_def example_directory_def)

lemma example_from_pretrained_loader:
  "from_pretrained resolve_activation example_draws example_directory example_loaders
     ''gpt2-small-hook-z-kk'' ''blocks.0.hook_z'' ''cpu''
   = (Inl (ValueError ''Conversion func connor_rob_hook_z not found in NAMED_PRETRAINED_SAE_LOADERS.''), [])"
  by (simp add: from_pretrained_def example_directory_def example_loaders_def
      conversion_loader_name_of_def Let_def)

lemma example_from_pretrained_loads:
  "from_pretrained resolve_activation example_draws example_directory example_loaders
     ''gpt2-small-res-jb'' ''blocks.0.hook_resid_pre'' ''cpu''
   = (Inr (example_base\<lparr>context_size := 128, dataset_name := ''openwebtext'',
             W_enc := [[1, 2], [3, 4]], b_enc := [5, 6], W_dec := [[1, 0], [0, 1]],
             b_dec := [7, 8]\<rparr>),
      [(''sae_lens'', ''jbloom/GPT2-Small-SAEs-Reformatted'', ''blocks.0.hook_resid_pre'',
        ''cpu'', False)])"
  by (simp add: from_pretrained_def example_directory_def example_loaders_def
      conversion_loader_name_of_def Let_def example_loader_def build_from_components_def
      example_cfg_map_def subscript_def as_nat_def as_str_def as_int_def as_opt_int_def
      as_bool_def SparseAutoencoderBase_init_def resolve_activation_def required_args_def
      initialize_weights_basic_def example_draws_def tabulate2_two zeros_two
      load_state_dict_def state_dict_of_def example_state_dict_def mat_shape_def
      example_base_def insert_commute)

text \<open>
  Claim C6. \<^verbatim>\<open>from_pretrained\<close> fails with a ValueError and calls no loader when the
  release is not in the directory, when the \<^verbatim>\<open>sae_id\<close> is not in the release's map, and
  when the resolved conversion-loader name is not in \<^verbatim>\<open>NAMED_PRETRAINED_SAE_LOADERS\<close>; the
  message contains the release, the \<^verbatim>\<open>sae_id\<close> and the loader name respectively.
\<close>

theorem from_pretrained_lookup_errors:
  "(sae_directory release = None \<longrightarrow>
      (\<exists>msg. from_pretrained get_activation_fn dr sae_directory loaders release sae_id device'
               = (Inl (ValueError msg), [])
             \<and> sublist release msg))
   \<and> (\<forall>info. sae_directory release = Some info \<and> saes_map info sae_id = None \<longrightarrow>
        (\<exists>msg. from_pretrained get_activation_fn dr sae_directory loaders release sae_id device'
                 = (Inl (ValueError msg), [])
               \<and> sublist sae_id msg))
   \<and> (\<forall>info hf_path.
         sae_directory release = Some info \<and> saes_map info sae_id = Some hf_path
         \<and> loaders (conversion_loader_name_of info) = None \<longrightarrow>
        (\<exists>msg. from_pretrained get_activation_fn dr sae_directory loaders release sae_id device'
                 = (Inl (ValueError msg), [])
               \<and> sublist (conversion_loader_name_of info) msg))"
proof (intro conjI allI impI)
  assume "sae_directory release = None"
  then have "from_pretrained get_activation_fn dr sae_directory loaders release sae_id device'
             = (Inl (ValueError (''Release '' @ release
                   @ '' not found in pretrained SAEs directory.'')), [])"
    by (simp add: from_pretrained_def)
  moreover have "sublist release (''Release '' @ release
                   @ '' not found in pretrained SAEs directory.'')"
    by (rule sublist_appendI)
  ultimately show "\<exists>msg. from_pretrained get_activation_fn dr sae_directory loaders release sae_id device'
               = (Inl (ValueError msg), []) \<and> sublist release msg"
    by blast
next
  fix info
  assume "sae_directory release = Some info \<and> saes_map info sae_id = None"
  then have "from_pretrained get_activation_fn dr sae_directory loaders release sae_id device'
             = (Inl (ValueError (''ID '' @ sae_id @ '' not found in release '' @ release @ ''.'')), [])"
    by (simp add: from_pretrained_def)
  moreover have "sublist sae_id (''ID '' @ sae_id @ '' not found in release '' @ release @ ''.'')"
    by (rule sublist_appendI)
  ultimately show "\<exists>msg. from_pretrained get_activation_fn dr sae_directory loaders release sae_id device'
               = (Inl (ValueError msg), []) \<and> sublist sae_id msg"
    by blast
next
  fix info hf_path
  assume "sae_directory release = Some info \<and> saes_map info sae_id = Some hf_path
         \<and> loaders (conversion_loader_name_of info) = None"
  then have "from_pretrained get_activation_fn dr sae_directory loaders release sae_id device'
             = (Inl (ValueError (''Conversion func '' @ conversion_loader_name_of info
                   @ '' not found in NAMED_PRETRAINED_SAE_LOADERS.'')), [])"
    by (simp add: from_pretrained_def Let_def)
  moreover have "sublist (conversion_loader_name_of info)
                   (''Conversion func '' @ conversion_loader_name_of info
                   @ '' not found in NAMED_PRETRAINED_SAE_LOADERS.'')"
    by (rule sublist_appendI)
  ultimately show "\<exists>msg. from_pretrained get_activation_fn dr sae_directory loaders release sae_id device'
               = (Inl (ValueError msg), []) \<and> sublist (conversion_loader_name_of info) msg"
    by blast
qed

theorem from_pretrained_lookup_errors_witness:
  "example_directory ''pythia-70m'' = None
   \<and> from_pretrained resolve_activation example_draws example_directory example_loaders
        ''pythia-70m'' ''blocks.0.hook_resid_pre'' ''cpu''
      = (Inl (ValueError ''Release pythia-70m not found in pretrained SAEs directory.''), [])
   \<and> sublist ''pythia-70m'' ''Release pythia-70m not found in pretrained SAEs directory.''
   \<and> from_pretrained resolve_activation example_draws example_directory example_loaders
        ''gpt2-small-res-jb'' ''blocks.9.hook_z'' ''cpu''
      = (Inl (ValueError ''ID blocks.9.hook_z not found in release gpt2-small-res-jb.''), [])
   \<and> sublist ''blocks.9.hook_z'' ''ID blocks.9.hook_z not found in release gpt2-small-res-jb.''
   \<and> from_pretrained resolve_activation example_draws example_directory example_loaders
        ''gpt2-small-hook-z-kk'' ''blocks.0.hook_z'' ''cpu''
      = (Inl (ValueError ''Conversion func connor_rob_hook_z not found in NAMED_PRETRAINED_SAE_LOADERS.''), [])
   \<and> sublist ''connor_rob_hook_z''
        ''Conversion func connor_rob_hook_z not found in NAMED_PRETRAINED_SAE_LOADERS.''"
proof -
  have d1: "example_directory ''pythia-70m'' = None"
    by (simp add: example_directory_def)
  have d2: "example_directory ''gpt2-small-res-jb''
              = Some \<lparr>repo_id = ''jbloom/GPT2-Small-SAEs-Reformatted'',
                      saes_map = [''blocks.0.hook_resid_pre'' \<mapsto> ''blocks.0.hook_resid_pre''],
                      conversion_func = None\<rparr>
            \<and> saes_map \<lparr>repo_id = ''jbloom/GPT2-Small-SAEs-Reformatted'',
                      saes_map = [''blocks.0.hook_resid_pre'' \<mapsto> ''blocks.0.hook_resid_pre''],
                      conversion_func = None\<rparr> ''blocks.9.hook_z'' = None"
    by (simp add: example_directory_def)
  have d3: "example_directory ''gpt2-small-hook-z-kk''
              = Some \<lparr>repo_id = ''ckkissane/attn-saes-gpt2-small-all-layers'',
                      saes_map = [''blocks.0.hook_z'' \<mapsto> ''gpt2-small_L0_Hcat_z.pt''],
                      conversion_func = Some ''connor_rob_hook_z''\<rparr>
            \<and> saes_map \<lparr>repo_id = ''ckkissane/attn-saes-gpt2-small-all-layers'',
                      saes_map = [''blocks.0.hook_z'' \<mapsto> ''gpt2-small_L0_Hcat_z.pt''],
                      conversion_func = Some ''connor_rob_hook_z''\<rparr> ''blocks.0.hook_z''
                = Some ''gpt2-small_L0_Hcat_z.pt''
            \<and> example_loaders (conversion_loader_name_of
                  \<lparr>repo_id = ''ckkissane/attn-saes-gpt2-small-all-layers'',
                   saes_map = [''blocks.0.hook_z'' \<mapsto> ''gpt2-small_L0_Hcat_z.pt''],
                   conversion_func = Some ''connor_rob_hook_z''\<rparr>) = None"
    by (simp add: example_directory_def example_loaders_def conversion_loader_name_of_def)
  have n3: "conversion_loader_name_of
                  \<lparr>repo_id = ''ckkissane/attn-saes-gpt2-small-all-layers'',
                   saes_map = [''blocks.0.hook_z'' \<mapsto> ''gpt2-small_L0_Hcat_z.pt''],
                   conversion_func = Some ''connor_rob_hook_z''\<rparr> = ''connor_rob_hook_z''"
    by (simp add: conversion_loader_name_of_def)
  have s1: "sublist ''pythia-70m'' ''Release pythia-70m not found in pretrained SAEs directory.''"
  proof -
    from from_pretrained_lookup_errors
          [of example_directory "''pythia-70m''" resolve_activation example_draws example_loaders
              "''blocks.0.hook_resid_pre''" "''cpu''", THEN conjunct1, rule_format, OF d1]
    obtain msg where "from_pretrained resolve_activation example_draws example_directory
        example_loaders ''pythia-70m'' ''blocks.0.hook_resid_pre'' ''cpu'' = (Inl (ValueError msg), [])"
      and sub: "sublist ''pythia-70m'' msg"
      by (elim exE conjE)
    then have "msg = ''Release pythia-70m not found in pretrained SAEs directory.''"
      by (simp only: example_from_pretrained_release prod.inject sum.inject error.inject)
    with sub show ?thesis by (simp only:)
  qed
  have s2: "sublist ''blocks.9.hook_z'' ''ID blocks.9.hook_z not found in release gpt2-small-res-jb.''"
  proof -
    from from_pretrained_lookup_errors
          [of example_directory "''gpt2-small-res-jb''" resolve_activation example_draws
              example_loaders "''blocks.9.hook_z''" "''cpu''",
           THEN conjunct2, THEN conjunct1, rule_format, OF d2]
    obtain msg where "from_pretrained resolve_activation example_draws example_directory
        example_loaders ''gpt2-small-res-jb'' ''blocks.9.hook_z'' ''cpu'' = (Inl (ValueError msg), [])"
      and sub: "sublist ''blocks.9.hook_z'' msg"
      by (elim exE conjE)
    then have "msg = ''ID blocks.9.hook_z not found in release gpt2-small-res-jb.''"
      by (simp only: example_from_pretrained_id prod.inject sum.inject error.inject)
    with sub show ?thesis by (simp only:)
  qed
  have s3: "sublist ''connor_rob_hook_z''
        ''Conversion func connor_rob_hook_z not found in NAMED_PRETRAINED_SAE_LOADERS.''"
  proof -
    from from_pretrained_lookup_errors
          [of example_directory "''gpt2-small-hook-z-kk''" resolve_activation example_draws
              example_loaders "''blocks.0.hook_z''" "''cpu''",
           THEN conjunct2, THEN conjunct2, rule_format, OF d3]
    obtain msg where "from_pretrained resolve_activation example_draws example_directory
        example_loaders ''gpt2-small-hook-z-kk'' ''blocks.0.hook_z'' ''cpu'' = (Inl (ValueError msg), [])"
      and sub: "sublist ''connor_rob_hook_z'' msg"
      unfolding n3 by (elim exE conjE)
    then have "msg = ''Conversion func connor_rob_hook_z not found in NAMED_PRETRAINED_SAE_LOADERS.''"
      by (simp only: example_from_pretrained_loader prod.inject sum.inject error.inject)
    with sub show ?thesis by (simp only:)
  qed
  show ?thesis
    by (intro conjI d1 s1 s2 s3 example_from_pretrained_release example_from_pretrained_id
      example_from_pretrained_loader)
qed

section \<open>Saving and loading a checkpoint\<close>

lemma init_args:
  assumes "SparseAutoencoderBase_init get_activation_fn dr a = Inr s"
  shows "apply_b_dec_to_input s = arg_apply_b_dec_to_input a"
    and "d_in s = arg_d_in a" and "d_sae s = arg_d_sae a"
  using assms
  by (auto simp: SparseAutoencoderBase_init_def initialize_weights_basic_def and_then_def Let_def
      split: sum.splits)

lemma cfg_initialize_weights_complex: "cfg (initialize_weights_complex dr s) = cfg s"
  by (simp add: initialize_weights_complex_def set_decoder_norm_to_unit_norm_def
      initialize_decoder_norm_constant_norm_def Let_def)

lemma training_init_has_no_cfg:
  assumes "TrainingSparseAutoencoder_init get_activation_fn dr c = Inr s"
  shows "cfg s = None"
proof -
  from assms obtain base where
    b: "SparseAutoencoderBase_init get_activation_fn dr
          \<lparr>arg_d_in = cfg_d_in c, arg_d_sae = cfg_d_sae c, arg_dtype = cfg_dtype c,
           arg_device = cfg_device c, arg_model_name = cfg_model_name c,
           arg_hook_point = cfg_hook_point c, arg_hook_point_layer = cfg_hook_point_layer c,
           arg_hook_point_head_index = cfg_hook_point_head_index c,
           arg_activation_fn = cfg_activation_fn c,
           arg_apply_b_dec_to_input = cfg_apply_b_dec_to_input c,
           arg_uses_scaling_factor = (cfg_finetuning_method c \<noteq> None),
           arg_sae_lens_training_version = cfg_sae_lens_training_version c,
           arg_prepend_bos = True, arg_dataset_path = ''unknown'', arg_context_size = 256\<rparr>
        = Inr base"
    and s: "s = initialize_weights_complex dr
                 (sae.extend base
                    (training_sae.fields
                       (cfg_mse_loss_normalization c) (cfg_l1_coefficient c) (cfg_lp_norm c)
                       (cfg_scale_sparsity_penalty_by_decoder_norm c) (cfg_use_ghost_grads c)
                       (cfg_noise_scale c) (cfg_normalize_sae_decoder c)
                       (cfg_decoder_orthogonal_init c) (cfg_decoder_heuristic_init c)
                       (cfg_init_encoder_as_decoder_transpose c)
                       (if cfg_scale_sparsity_penalty_by_decoder_norm c
                        then SparsityDecoderNorm else SparsityStandard)))"
    unfolding TrainingSparseAutoencoder_init_def and_then_def by (auto split: sum.splits)
  have "cfg base = None" by (rule init_installs_scaling(8)[OF b])
  then show ?thesis
    unfolding s cfg_initialize_weights_complex by (simp add: sae.extend_def)
qed

lemma save_model_without_cfg:
  assumes "cfg s = None"
  shows "fst (save_model s path sparsity fs) = Inl (AttributeError ''cfg'')
         \<or> fst (save_model s path sparsity fs) = Inl (OSError ''Not a directory'')"
    and "snd (save_model s path sparsity fs) (path @ ''/'' @ SAE_CFG_PATH)
         = fs (path @ ''/'' @ SAE_CFG_PATH)"
  using assms
  by (auto simp: save_model_def get_config_dict_def write_file_def Let_def
      SAE_CFG_PATH_def SAE_WEIGHTS_PATH_def
      split: option.splits fs_entry.splits sum.splits)

lemma and_then_eq_Inr: "and_then r f = Inr y \<longleftrightarrow> (\<exists>v. r = Inr v \<and> f v = Inr y)"
  by (cases r) simp_all

lemma load_state_dict_flags:
  assumes "load_state_dict sd s = Inr s'"
  shows "apply_b_dec_to_input s' = apply_b_dec_to_input s"
    and "uses_scaling_factor s' = uses_scaling_factor s"
    and "(scaling_factor s' = None) = (scaling_factor s = None)"
  using assms
  by (auto simp: load_state_dict_def split: if_splits option.splits param.splits)

text \<open>
  \<^verbatim>\<open>load_from_pretrained\<close> does not hand \<^verbatim>\<open>apply_b_dec_to_input\<close> and
  \<^verbatim>\<open>uses_scaling_factor\<close> to the constructor: whatever the configuration file says, the
  instance it returns has the defaults.
\<close>

lemma init_then_load:
  assumes "SparseAutoencoderBase_init get_activation_fn dr a = Inr s0"
    and "load_state_dict sd s0 = Inr s"
  shows "apply_b_dec_to_input s = arg_apply_b_dec_to_input a
         \<and> uses_scaling_factor s = arg_uses_scaling_factor a
         \<and> (scaling_factor s = None) = (\<not> arg_uses_scaling_factor a)"
  using init_installs_scaling(2,3)[OF assms(1)] init_args(1)[OF assms(1)]
    load_state_dict_flags[OF assms(2)] by simp

lemma load_from_pretrained_defaults:
  assumes "load_from_pretrained get_activation_fn dr load_components path device' dtype' = Inr s"
  shows "apply_b_dec_to_input s \<and> \<not> uses_scaling_factor s \<and> scaling_factor s = None"
  using assms unfolding load_from_pretrained_def Let_def
  by (auto simp: and_then_eq_Inr required_args_def dest!: init_then_load)

text \<open>
  Claim C1 (the code does not do this). \<^verbatim>\<open>save_model\<close> followed by
  \<^verbatim>\<open>load_from_pretrained\<close> should give back the instance. On an instance as a constructor
  builds it, \<^verbatim>\<open>save_model\<close> writes the weights file and then raises AttributeError in
  \<^verbatim>\<open>get_config_dict\<close>, which reads \<^verbatim>\<open>self.cfg\<close>; no \<^verbatim>\<open>cfg.json\<close> is written.
\<close>

theorem save_model_raises_on_constructed_instance:
  "SparseAutoencoderBase_init resolve_activation example_draws example_args = Inr example_base
   \<and> fst (save_model example_base ''checkpoint'' None Map.empty) = Inl (AttributeError ''cfg'')
   \<and> snd (save_model example_base ''checkpoint'' None Map.empty) ''checkpoint/cfg.json'' = None
   \<and> snd (save_model example_base ''checkpoint'' None Map.empty)
        ''checkpoint/sae_weights.safetensors'' = Some (SafeTensors (state_dict_of example_base))"
  by (simp add: example_base_init save_model_def get_config_dict_def write_file_def
      SAE_WEIGHTS_PATH_def example_base_def Let_def)

section \<open>The norms of the decoder rows after construction\<close>

lemma sum_squares_nonneg: "0 \<le> sum_list (map (\<lambda>a. a * a) (v::real list))"
  by (induction v) simp_all

lemma l2_norm_nonneg: "0 \<le> l2_norm v"
  by (simp add: l2_norm_def sum_squares_nonneg)

lemma sum_squares_zero_iff: "sum_list (map (\<lambda>a. a * a) v) = 0 \<longleftrightarrow> (\<forall>a\<in>set v. a = (0::real))"
proof (induction v)
  case Nil
  then show ?case by simp
next
  case (Cons x v)
  have "0 \<le> sum_list (map (\<lambda>a. a * a) v)" by (rule sum_squares_nonneg)
  moreover have "0 \<le> x * x" by simp
  ultimately have "x * x + sum_list (map (\<lambda>a. a * a) v) = 0
                   \<longleftrightarrow> x * x = 0 \<and> sum_list (map (\<lambda>a. a * a) v) = 0"
    by (simp add: add_nonneg_eq_0_iff)
  with Cons show ?case by simp
qed

lemma l2_norm_zero_iff: "l2_norm v = 0 \<longleftrightarrow> (\<forall>a\<in>set v. a = 0)"
  by (simp add: l2_norm_def sum_squares_zero_iff)

lemma l2_norm_scale: "l2_norm (map (\<lambda>a. a * c) v) = \<bar>c\<bar> * l2_norm v"
proof -
  have "sum_list (map (\<lambda>a. a * c * (a * c)) v) = (c * c) * sum_list (map (\<lambda>a. a * a) v)"
    by (induction v) (simp_all add: algebra_simps)
  then show ?thesis
    by (simp add: l2_norm_def comp_def real_sqrt_mult)
qed

lemma l2_norm_normalized:
  assumes "l2_norm v \<noteq> 0"
  shows "l2_norm (map (\<lambda>a. a / l2_norm v) v) = 1"
proof -
  have "map (\<lambda>a. a / l2_norm v) v = map (\<lambda>a. a * (1 / l2_norm v)) v" by simp
  then have "l2_norm (map (\<lambda>a. a / l2_norm v) v) = \<bar>1 / l2_norm v\<bar> * l2_norm v"
    by (simp only: l2_norm_scale)
  also have "\<dots> = 1" using assms l2_norm_nonneg[of v] by simp
  finally show ?thesis .
qed

lemma transpose_tabulate:
  "transpose_mat n m (tabulate2 n m f) = tabulate2 m n (\<lambda>j i. f i j)"
  by (simp add: transpose_mat_def tabulate2_def)

lemma W_dec_initialize_weights_complex:
  "W_dec (initialize_weights_complex dr s) =
     (let W1 =
            (if decoder_orthogonal_init s
             then tabulate2 (d_sae s) (d_in s) (\<lambda>i j. orthogonal_W_dec_T dr j i)
             else if decoder_heuristic_init s
             then map (map (\<lambda>a. a * default_norm))
                    (unit_rows (tabulate2 (d_sae s) (d_in s) (rand_W_dec dr)))
             else if normalize_sae_decoder s
             then unit_rows (W_dec s)
             else W_dec s)
      in if normalize_sae_decoder s then unit_rows W1 else W1)"
  by (simp add: initialize_weights_complex_def Let_def
      set_decoder_norm_to_unit_norm_def initialize_decoder_norm_constant_norm_def
      transpose_tabulate)

lemma extended_fields:
  "W_dec (sae.extend b (training_sae.fields m l p sp g n nd od hed td pol)) = W_dec b"
  "d_in (sae.extend b (training_sae.fields m l p sp g n nd od hed td pol)) = d_in b"
  "d_sae (sae.extend b (training_sae.fields m l p sp g n nd od hed td pol)) = d_sae b"
  "normalize_sae_decoder (sae.extend b (training_sae.fields m l p sp g n nd od hed td pol)) = nd"
  "decoder_orthogonal_init (sae.extend b (training_sae.fields m l p sp g n nd od hed td pol)) = od"
  "decoder_heuristic_init (sae.extend b (training_sae.fields m l p sp g n nd od hed td pol)) = hed"
  by (simp_all add: sae.extend_def training_sae.fields_def)

lemma base_init_decoder:
  assumes "SparseAutoencoderBase_init get_activation_fn dr a = Inr s"
  shows "W_dec s = tabulate2 (arg_d_sae a) (arg_d_in a) (kaiming_W_dec dr)"
    and "d_in s = arg_d_in a" and "d_sae s = arg_d_sae a"
  using assms
  by (auto simp: SparseAutoencoderBase_init_def initialize_weights_basic_def and_then_eq_Inr Let_def)

lemma W_dec_after_init:
  assumes "TrainingSparseAutoencoder_init get_activation_fn dr c = Inr s"
  shows "W_dec s =
     (let W1 =
            (if cfg_decoder_orthogonal_init c
             then tabulate2 (cfg_d_sae c) (cfg_d_in c) (\<lambda>i j. orthogonal_W_dec_T dr j i)
             else if cfg_decoder_heuristic_init c
             then map (map (\<lambda>a. a * default_norm))
                    (unit_rows (tabulate2 (cfg_d_sae c) (cfg_d_in c) (rand_W_dec dr)))
             else if cfg_normalize_sae_decoder c
             then unit_rows (tabulate2 (cfg_d_sae c) (cfg_d_in c) (kaiming_W_dec dr))
             else tabulate2 (cfg_d_sae c) (cfg_d_in c) (kaiming_W_dec dr))
      in if cfg_normalize_sae_decoder c then unit_rows W1 else W1)"
proof -
  from assms obtain base where
    b: "SparseAutoencoderBase_init get_activation_fn dr
          \<lparr>arg_d_in = cfg_d_in c, arg_d_sae = cfg_d_sae c, arg_dtype = cfg_dtype c,
           arg_device = cfg_device c, arg_model_name = cfg_model_name c,
           arg_hook_point = cfg_hook_point c, arg_hook_point_layer = cfg_hook_point_layer c,
           arg_hook_point_head_index = cfg_hook_point_head_index c,
           arg_activation_fn = cfg_activation_fn c,
           arg_apply_b_dec_to_input = cfg_apply_b_dec_to_input c,
           arg_uses_scaling_factor = (cfg_finetuning_method c \<noteq> None),
           arg_sae_lens_training_version = cfg_sae_lens_training_version c,
           arg_prepend_bos = True, arg_dataset_path = ''unknown'', arg_context_size = 256\<rparr>
        = Inr base"
    and s: "s = initialize_weights_complex dr
                 (sae.extend base
                    (training_sae.fields
                       (cfg_mse_loss_normalization c) (cfg_l1_coefficient c) (cfg_lp_norm c)
                       (cfg_scale_sparsity_penalty_by_decoder_norm c) (cfg_use_ghost_grads c)
                       (cfg_noise_scale c) (cfg_normalize_sae_decoder c)
                       (cfg_decoder_orthogonal_init c) (cfg_decoder_heuristic_init c)
                       (cfg_init_encoder_as_decoder_transpose c)
                       (if cfg_scale_sparsity_penalty_by_decoder_norm c
                        then SparsityDecoderNorm else SparsityStandard)))"
    unfolding TrainingSparseAutoencoder_init_def by (auto simp: and_then_eq_Inr)
  show ?thesis
    unfolding s W_dec_initialize_weights_complex extended_fields
    by (simp add: base_init_decoder[OF b])
qed

lemma rows_nonzero_tabulate:
  assumes "\<forall>i<n. \<exists>j<m. f i j \<noteq> 0"
  shows "\<forall>r\<in>set (tabulate2 n m f). l2_norm r \<noteq> 0"
  using assms by (fastforce simp: tabulate2_def l2_norm_zero_iff)

lemma unit_rows_norm:
  assumes "\<forall>r\<in>set W. l2_norm r \<noteq> 0"
  shows "\<forall>r\<in>set (unit_rows W). l2_norm r = 1"
  using assms by (auto simp: unit_rows_def l2_norm_normalized)

lemma scaled_rows_norm:
  assumes "\<forall>r\<in>set W. l2_norm r = 1"
  shows "\<forall>r\<in>set (map (map (\<lambda>a. a * c)) W). l2_norm r = \<bar>c\<bar>"
  using assms by (auto simp: l2_norm_scale)

lemma length_tabulate2: "length (tabulate2 n m f) = n"
  by (simp add: tabulate2_def)

lemma length_unit_rows: "length (unit_rows W) = length W"
  by (simp add: unit_rows_def)

lemma sqrt_100: "sqrt 100 = 10"
  by (rule real_sqrt_unique) simp_all

lemma l2_norm_rand_row: "l2_norm [3 / 10, 2 / 5] = 1 / 2"
  by (simp add: l2_norm_def real_sqrt_divide)

lemma l2_norm_heuristic_row: "l2_norm [3 / 50, 2 / 25] = 1 / 10"
  by (simp add: l2_norm_def real_sqrt_divide sqrt_100)

lemma l2_norm_unit_row: "l2_norm [3 / 5, 4 / 5] = 1"
  by (simp add: l2_norm_def)

lemma heuristic_init:
  "TrainingSparseAutoencoder_init resolve_activation example_draws heuristic_cfg = Inr heuristic_sae"
  by (simp add: TrainingSparseAutoencoder_init_def SparseAutoencoderBase_init_def
      resolve_activation_def example_cfg_def heuristic_cfg_def initialize_weights_basic_def
      example_draws_def example_sae_def heuristic_sae_def initialize_weights_complex_def
      initialize_decoder_norm_constant_norm_def unit_rows_def default_norm_def
      sae.extend_def training_sae.fields_def tabulate2_two zeros_two Let_def l2_norm_rand_row)

lemma heuristic_unit_init:
  "TrainingSparseAutoencoder_init resolve_activation example_draws heuristic_unit_cfg
   = Inr heuristic_unit_sae"
  by (simp add: TrainingSparseAutoencoder_init_def SparseAutoencoderBase_init_def
      resolve_activation_def example_cfg_def heuristic_unit_cfg_def initialize_weights_basic_def
      example_draws_def example_sae_def heuristic_unit_sae_def initialize_weights_complex_def
      initialize_decoder_norm_constant_norm_def set_decoder_norm_to_unit_norm_def
      unit_rows_def default_norm_def
      sae.extend_def training_sae.fields_def tabulate2_two zeros_two Let_def l2_norm_rand_row
      l2_norm_heuristic_row)

lemma orthogonal_heuristic_init:
  "TrainingSparseAutoencoder_init resolve_activation example_draws orthogonal_heuristic_cfg
   = Inr orthogonal_heuristic_sae"
  by (simp add: TrainingSparseAutoencoder_init_def SparseAutoencoderBase_init_def
      resolve_activation_def example_cfg_def orthogonal_heuristic_cfg_def
      initialize_weights_basic_def example_draws_def example_sae_def
      orthogonal_heuristic_sae_def initialize_weights_complex_def transpose_mat_def
      sae.extend_def training_sae.fields_def tabulate2_two zeros_two Let_def)

lemma example_draws_nonzero:
  "\<forall>i<2. (\<exists>j<2. kaiming_W_dec example_draws i j \<noteq> 0)
         \<and> (\<exists>j<2. rand_W_dec example_draws i j \<noteq> 0)
         \<and> (\<exists>j<2. orthogonal_W_dec_T example_draws j i \<noteq> 0)"
  by (auto simp: example_draws_def intro: exI[of _ 0])

text \<open>
  Claim C4 as stated fails. With \<^verbatim>\<open>decoder_heuristic_init\<close> and
  \<^verbatim>\<open>normalize_sae_decoder\<close> both requested, the last step of
  \<^verbatim>\<open>initialize_weights_complex\<close> renormalises the decoder; with
  \<^verbatim>\<open>decoder_orthogonal_init\<close> and \<^verbatim>\<open>decoder_heuristic_init\<close> both requested, the
  orthogonal branch is taken and the heuristic one is not. In both cases the rows have
  norm 1, not the target 0.1.
\<close>

theorem heuristic_norm_overridden_counterexample:
  "cfg_decoder_heuristic_init heuristic_unit_cfg
   \<and> TrainingSparseAutoencoder_init resolve_activation example_draws heuristic_unit_cfg
       = Inr heuristic_unit_sae
   \<and> map l2_norm (W_dec heuristic_unit_sae) = [1, 1]
   \<and> cfg_decoder_heuristic_init orthogonal_heuristic_cfg
   \<and> TrainingSparseAutoencoder_init resolve_activation example_draws orthogonal_heuristic_cfg
       = Inr orthogonal_heuristic_sae
   \<and> map l2_norm (W_dec orthogonal_heuristic_sae) = [1, 1]
   \<and> default_norm = 1 / 10"
proof -
  have requested: "cfg_decoder_heuristic_init heuristic_unit_cfg"
    by (simp add: heuristic_unit_cfg_def example_cfg_def)
  have norms: "map l2_norm (W_dec heuristic_unit_sae) = [1, 1]"
    by (simp add: heuristic_unit_sae_def example_sae_def l2_norm_unit_row)
  have requested': "cfg_decoder_heuristic_init orthogonal_heuristic_cfg"
    by (simp add: orthogonal_heuristic_cfg_def example_cfg_def)
  have norms': "map l2_norm (W_dec orthogonal_heuristic_sae) = [1, 1]"
    by (simp add: orthogonal_heuristic_sae_def example_sae_def l2_norm_def)
  have target: "default_norm = 1 / 10"
    by (simp add: default_norm_def)
  show ?thesis
    by (intro conjI requested heuristic_unit_init norms requested' orthogonal_heuristic_init
        norms' target)
qed

text \<open>
  Claim C4, amended. In exact arithmetic, and when every row of the decoder drawn at
  random has a non-zero entry: right after construction \<^verbatim>\<open>W_dec\<close> has \<^verbatim>\<open>d_sae\<close> rows;
  if \<^verbatim>\<open>normalize_sae_decoder\<close> was requested every row has L2 norm 1; if
  \<^verbatim>\<open>decoder_heuristic_init\<close> was requested and neither \<^verbatim>\<open>decoder_orthogonal_init\<close> nor
  \<^verbatim>\<open>normalize_sae_decoder\<close> was, every row has L2 norm 0.1.
\<close>

theorem decoder_row_norms_after_init:
  assumes init: "TrainingSparseAutoencoder_init get_activation_fn dr c = Inr s"
    and nonzero: "\<forall>i<cfg_d_sae c. \<exists>j<cfg_d_in c. drawn_decoder dr c i j \<noteq> 0"
  shows "length (W_dec s) = cfg_d_sae c
       \<and> (cfg_normalize_sae_decoder c \<longrightarrow> (\<forall>r\<in>set (W_dec s). l2_norm r = 1))
       \<and> (cfg_decoder_heuristic_init c \<and> \<not> cfg_decoder_orthogonal_init c
            \<and> \<not> cfg_normalize_sae_decoder c
          \<longrightarrow> (\<forall>r\<in>set (W_dec s). l2_norm r = default_norm))"
proof -
  define K where "K = tabulate2 (cfg_d_sae c) (cfg_d_in c) (kaiming_W_dec dr)"
  define R where "R = tabulate2 (cfg_d_sae c) (cfg_d_in c) (rand_W_dec dr)"
  define Q where "Q = tabulate2 (cfg_d_sae c) (cfg_d_in c) (\<lambda>i j. orthogonal_W_dec_T dr j i)"
  define H where "H = map (map (\<lambda>a. a * default_norm)) (unit_rows R)"
  have Q: "\<forall>r\<in>set Q. l2_norm r \<noteq> 0" if "cfg_decoder_orthogonal_init c"
    unfolding Q_def using nonzero that
    by (intro rows_nonzero_tabulate) (simp add: drawn_decoder_def)
  have R: "\<forall>r\<in>set R. l2_norm r \<noteq> 0"
    if "\<not> cfg_decoder_orthogonal_init c" "cfg_decoder_heuristic_init c"
    unfolding R_def using nonzero that
    by (intro rows_nonzero_tabulate) (simp add: drawn_decoder_def)
  have K: "\<forall>r\<in>set K. l2_norm r \<noteq> 0"
    if "\<not> cfg_decoder_orthogonal_init c" "\<not> cfg_decoder_heuristic_init c"
    unfolding K_def using nonzero that
    by (intro rows_nonzero_tabulate) (simp add: drawn_decoder_def)
  have H: "\<forall>r\<in>set H. l2_norm r = default_norm"
    if "\<not> cfg_decoder_orthogonal_init c" "cfg_decoder_heuristic_init c"
    unfolding H_def using scaled_rows_norm[OF unit_rows_norm[OF R[OF that]], of default_norm]
    by (simp add: default_norm_def)
  have H0: "\<forall>r\<in>set H. l2_norm r \<noteq> 0"
    if "\<not> cfg_decoder_orthogonal_init c" "cfg_decoder_heuristic_init c"
  proof
    fix r assume "r \<in> set H"
    with H[OF that] have "l2_norm r = 1 / 10" by (simp only: default_norm_def)
    then show "l2_norm r \<noteq> 0" by simp
  qed
  have UK0: "\<forall>r\<in>set (unit_rows K). l2_norm r \<noteq> 0"
    if "\<not> cfg_decoder_orthogonal_init c" "\<not> cfg_decoder_heuristic_init c"
    using unit_rows_norm[OF K[OF that]] by simp
  have W: "W_dec s =
     (let W1 = (if cfg_decoder_orthogonal_init c then Q
                else if cfg_decoder_heuristic_init c then H
                else if cfg_normalize_sae_decoder c then unit_rows K else K)
      in if cfg_normalize_sae_decoder c then unit_rows W1 else W1)"
    unfolding K_def R_def Q_def H_def by (rule W_dec_after_init[OF init])
  have len: "length (W_dec s) = cfg_d_sae c"
    unfolding W by (simp add: Let_def length_unit_rows K_def Q_def H_def R_def length_tabulate2)
  have unit: "\<forall>r\<in>set (W_dec s). l2_norm r = 1" if n: "cfg_normalize_sae_decoder c"
  proof (cases "cfg_decoder_orthogonal_init c")
    case True
    then show ?thesis unfolding W using n unit_rows_norm[OF Q[OF True]] by (simp add: Let_def)
  next
    case False
    show ?thesis
    proof (cases "cfg_decoder_heuristic_init c")
      case True
      then show ?thesis
        unfolding W using n False unit_rows_norm[OF H0[OF False True]] by (simp add: Let_def)
    next
      case h: False
      then show ?thesis
        unfolding W using n False unit_rows_norm[OF UK0[OF False h]] by (simp add: Let_def)
    qed
  qed
  have heur: "\<forall>r\<in>set (W_dec s). l2_norm r = default_norm"
    if "cfg_decoder_heuristic_init c \<and> \<not> cfg_decoder_orthogonal_init c
            \<and> \<not> cfg_normalize_sae_decoder c"
    unfolding W using that H by (simp add: Let_def)
  show ?thesis using len unit heur by blast
qed

theorem decoder_row_norms_after_init_witness:
  "TrainingSparseAutoencoder_init resolve_activation example_draws heuristic_cfg = Inr heuristic_sae
   \<and> cfg_decoder_heuristic_init heuristic_cfg
   \<and> cfg_decoder_orthogonal_init heuristic_cfg = False
   \<and> cfg_normalize_sae_decoder heuristic_cfg = False
   \<and> map l2_norm (W_dec heuristic_sae) = [default_norm, default_norm]
   \<and> TrainingSparseAutoencoder_init resolve_activation example_draws heuristic_unit_cfg
       = Inr heuristic_unit_sae
   \<and> cfg_normalize_sae_decoder heuristic_unit_cfg
   \<and> map l2_norm (W_dec heuristic_unit_sae) = [1, 1]"
proof -
  have nz1: "\<forall>i<cfg_d_sae heuristic_cfg.
               \<exists>j<cfg_d_in heuristic_cfg. drawn_decoder example_draws heuristic_cfg i j \<noteq> 0"
    using example_draws_nonzero
    by (simp add: heuristic_cfg_def example_cfg_def drawn_decoder_def)
  have nz2: "\<forall>i<cfg_d_sae heuristic_unit_cfg.
               \<exists>j<cfg_d_in heuristic_unit_cfg.
                 drawn_decoder example_draws heuristic_unit_cfg i j \<noteq> 0"
    using example_draws_nonzero
    by (simp add: heuristic_unit_cfg_def example_cfg_def drawn_decoder_def)
  have flags: "cfg_decoder_heuristic_init heuristic_cfg
       \<and> \<not> cfg_decoder_orthogonal_init heuristic_cfg \<and> \<not> cfg_normalize_sae_decoder heuristic_cfg"
    "cfg_normalize_sae_decoder heuristic_unit_cfg"
    by (simp_all add: heuristic_cfg_def heuristic_unit_cfg_def example_cfg_def)
  from decoder_row_norms_after_init[OF heuristic_init nz1] flags(1)
  have "\<forall>r\<in>set (W_dec heuristic_sae). l2_norm r = default_norm" by blast
  then have a: "map l2_norm (W_dec heuristic_sae) = [default_norm, default_norm]"
    by (simp add: heuristic_sae_def)
  from decoder_row_norms_after_init[OF heuristic_unit_init nz2] flags(2)
  have "\<forall>r\<in>set (W_dec heuristic_unit_sae). l2_norm r = 1" by blast
  then have b: "map l2_norm (W_dec heuristic_unit_sae) = [1, 1]"
    by (simp add: heuristic_unit_sae_def example_sae_def)
  show ?thesis
    using flags by (intro conjI heuristic_init heuristic_unit_init a b) simp_all
qed

section \<open>The two sparsity terms\<close>





























end
